theory Spec2Isabelle
  imports Main
begin

section \<open>The factory of config arrays (lib/lookup/config-array-factory.js)\<close>

text \<open>
  A shallow embedding of \<^verbatim>\<open>ConfigArrayFactory\<close>. JavaScript exceptions are values of
  the record \<open>error\<close>; a function that can throw returns \<open>error + 'a\<close> with \<open>Inl\<close> the
  thrown error. The generators of the source are consumed completely by their callers
  (\<^verbatim>\<open>new ConfigArray(...elements)\<close>), so a generator is modelled by the list of the
  elements it yields, or by the first error thrown while it runs. The recursion through
  \<^verbatim>\<open>extends\<close> follows the file system and need not end; the depth of the call stack is
  an explicit bound and \<open>None\<close> is the result of a run that exceeds it.

  Strings are byte strings; an absent (\<^verbatim>\<open>undefined\<close>) string argument is the empty
  string, which JavaScript treats as falsy in the same way.
\<close>

subsection \<open>Values\<close>

datatype json =
    JNull
  | JBool bool
  | JNum int
  | JStr string
  | JArr "json list"
  | JObj "(string \<times> json) list"

text \<open>An \<^verbatim>\<open>Error\<close> object with the properties the source reads and assigns.\<close>

record error =
  message :: string
  code :: "string option"
  messageTemplate :: "string option"
  messageData :: "(string \<times> string) list"

definition Error :: "string \<Rightarrow> error" where
  "Error msg = \<lparr>message = msg, code = None, messageTemplate = None, messageData = []\<rparr>"

text \<open>
  \<^verbatim>\<open>ConfigData\<close> and \<^verbatim>\<open>ConfigOverrideData\<close>. \<open>files\<close> and \<open>excludedFiles\<close> are the pattern
  lists (a single string is a one-element list, an absent property the empty list);
  \<open>extends\<close> is \<^verbatim>\<open>Array.isArray(extend) ? extend : [extend]\<close> with an absent entry
  written as the empty string; an absent \<open>overrides\<close> is the empty list.
\<close>

datatype config_data = ConfigData
  (files: "string list")
  (excludedFiles: "string list")
  (env: "json option")
  (extends: "string list")
  (globals: "json option")
  (overrides: "config_data list")
  (parser: "string option")
  (parserOptions: "json option")
  (plugins: "string list option")
  (processor: "string option")
  (root: "bool option")
  (rules: "json option")
  (settings: "json option")

text \<open>
  A value read from a config source: \<open>Falsy\<close> (\<^verbatim>\<open>null\<close>, an empty document), or an object
  seen as config data together with the value of its own property \<^verbatim>\<open>eslintConfig\<close> when
  it has one.
\<close>

datatype js_value =
    Falsy
  | Obj config_data "js_value option"

text \<open>
  What a parser or plugin module exports: the named configs, the keys of \<^verbatim>\<open>processors\<close>
  in the order of \<^verbatim>\<open>Object.keys\<close>, and the remaining exports.
\<close>

datatype module_def = ModuleDef
  (configs: "(string \<times> js_value) list")
  (processors: "string list")
  (exports: json)

text \<open>
  A \<^verbatim>\<open>ConfigDependency\<close>; \<open>None\<close> is \<^verbatim>\<open>null\<close> or an absent property.
\<close>

record config_dependency =
  dep_definition :: "module_def option"
  dep_error :: "error option"
  dep_filePath :: "string option"
  dep_id :: string
  dep_importerName :: "string option"
  dep_importerPath :: string

subsection \<open>Collaborators outside the file\<close>

text \<open>
  The modules the factory requires are parameters: Node's \<^verbatim>\<open>path\<close> and \<^verbatim>\<open>fs\<close>, the
  readers (\<^verbatim>\<open>import-fresh\<close>, \<^verbatim>\<open>JSON.parse\<close>, \<^verbatim>\<open>js-yaml\<close>, \<^verbatim>\<open>strip-json-comments\<close>),
  \<^verbatim>\<open>ModuleResolver.resolve\<close>, \<^verbatim>\<open>require\<close>, \<^verbatim>\<open>naming\<close>, \<^verbatim>\<open>validateConfigSchema\<close>, the
  glob matcher, the bundled \<^verbatim>\<open>espree\<close> and the two built-in config paths.
\<close>

record host =
  path_resolve :: "string \<Rightarrow> string \<Rightarrow> string"
  path_dirname :: "string \<Rightarrow> string"
  path_join :: "string \<Rightarrow> string \<Rightarrow> string"
  path_relative :: "string \<Rightarrow> string \<Rightarrow> string"
  path_isAbsolute :: "string \<Rightarrow> bool"
  path_extname :: "string \<Rightarrow> string"
  path_basename :: "string \<Rightarrow> string"
  fs_readFileSync :: "string \<Rightarrow> error + string"
  importFresh :: "string \<Rightarrow> error + js_value"
  JSON_parse :: "string \<Rightarrow> error + js_value"
  yaml_safeLoad :: "string \<Rightarrow> error + js_value"
  stripComments :: "string \<Rightarrow> string"
  ModuleResolver_resolve :: "string \<Rightarrow> string \<Rightarrow> error + string"
  require :: "string \<Rightarrow> error + module_def"
  normalizePackageName :: "string \<Rightarrow> string \<Rightarrow> string"
  getShorthandName :: "string \<Rightarrow> string \<Rightarrow> string"
  validateConfigSchema :: "js_value \<Rightarrow> string \<Rightarrow> error option"
  minimatch :: "string \<Rightarrow> string \<Rightarrow> bool"
  espree :: module_def
  espree_path :: string
  eslintRecommendedPath :: string
  eslintAllPath :: string

text \<open>The fields of a \<^verbatim>\<open>ConfigArrayFactory\<close> instance.\<close>

record factory =
  additionalParserPool :: "string \<rightharpoonup> module_def"
  additionalPluginPool :: "string \<rightharpoonup> module_def"
  cwd :: string

subsection \<open>Helpers\<close>

definition configFilenames :: "string list" where
  "configFilenames =
     [''.eslintrc.js'', ''.eslintrc.yaml'', ''.eslintrc.yml'', ''.eslintrc.json'',
      ''.eslintrc'', ''package.json'']"

definition startsWith :: "string \<Rightarrow> string \<Rightarrow> bool" where
  "startsWith s p \<longleftrightarrow> take (length p) s = p"

definition isSeparator :: "char \<Rightarrow> bool" where
  "isSeparator c \<longleftrightarrow> c = CHR ''/'' \<or> c = CHR 0x5C"

text \<open>The regular expression \<^verbatim>\<open>/^\.{1,2}[/\\]/u\<close>.\<close>

fun dotPathPrefix :: "string \<Rightarrow> bool" where
  "dotPathPrefix (a # b # c # _) =
     (a = CHR ''.'' \<and> (isSeparator b \<or> (b = CHR ''.'' \<and> isSeparator c)))"
| "dotPathPrefix [a, b] = (a = CHR ''.'' \<and> isSeparator b)"
| "dotPathPrefix _ = False"

definition isFilePath :: "host \<Rightarrow> string \<Rightarrow> bool" where
  "isFilePath h nameOrPath \<longleftrightarrow> dotPathPrefix nameOrPath \<or> path_isAbsolute h nameOrPath"

text \<open>
  The class \<^verbatim>\<open>\s\<close> on byte strings: tab, line feed, vertical tab, form feed, carriage
  return, space and the no-break space.
\<close>

definition isWhitespace :: "char \<Rightarrow> bool" where
  "isWhitespace c \<longleftrightarrow> c \<in> set [CHR 0x09, CHR 0x0A, CHR 0x0B, CHR 0x0C, CHR 0x0D, CHR 0x20, CHR 0xA0]"

text \<open>\<^verbatim>\<open>nameOrPath.match(/\s+/u)\<close> as a truth value.\<close>

definition matchWhitespace :: "string \<Rightarrow> bool" where
  "matchWhitespace s \<longleftrightarrow> list_ex isWhitespace s"

definition configMissingError :: "string \<Rightarrow> error" where
  "configMissingError configName =
     \<lparr>message = ''Failed to load config \"'' @ configName @ ''\" to extend from.'',
      code = None,
      messageTemplate = Some ''extend-config-missing'',
      messageData = [(''configName'', configName)]\<rparr>"

text \<open>
  Property assignment \<^verbatim>\<open>map[key] = value\<close> on an object kept as its list of entries in
  insertion order, and \<^verbatim>\<open>Object.keys\<close>, which lists the array-index keys first, in
  ascending numeric order, and then the other keys in insertion order.
\<close>

fun assign :: "(string \<times> 'a) list \<Rightarrow> string \<Rightarrow> 'a \<Rightarrow> (string \<times> 'a) list" where
  "assign [] k v = [(k, v)]"
| "assign ((k', v') # m) k v = (if k' = k then (k, v) # m else (k', v') # assign m k v)"

definition isDigit :: "char \<Rightarrow> bool" where
  "isDigit c \<longleftrightarrow> (48::nat) \<le> of_char c \<and> of_char c \<le> (57::nat)"

definition decimalValue :: "string \<Rightarrow> nat" where
  "decimalValue s = foldl (\<lambda>n c. 10 * n + (of_char c - 48)) 0 s"

definition isArrayIndex :: "string \<Rightarrow> bool" where
  "isArrayIndex s \<longleftrightarrow>
     s \<noteq> [] \<and> list_all isDigit s \<and> (s = ''0'' \<or> hd s \<noteq> CHR ''0'') \<and>
     length s \<le> 10 \<and> decimalValue s < 4294967295"

definition Object_keys :: "(string \<times> 'a) list \<Rightarrow> string list" where
  "Object_keys m =
     sort_key decimalValue (filter isArrayIndex (map fst m)) @
     filter (\<lambda>k. \<not> isArrayIndex k) (map fst m)"

subsection \<open>Loading parsers and plugins\<close>

definition ConfigDependency ::
  "module_def option \<Rightarrow> error option \<Rightarrow> string option \<Rightarrow> string \<Rightarrow> string \<Rightarrow> string
     \<Rightarrow> config_dependency" where
  "ConfigDependency d e p i importerName importerPath =
     \<lparr>dep_definition = d, dep_error = e, dep_filePath = p, dep_id = i,
      dep_importerName = Some importerName, dep_importerPath = importerPath\<rparr>"

text \<open>
  \<^verbatim>\<open>_loadParser\<close>. The \<^verbatim>\<open>try\<close> block resolves and requires the module; the \<^verbatim>\<open>catch\<close>
  block rewrites the message of a \<^verbatim>\<open>MODULE_NOT_FOUND\<close> error, falls back to the bundled
  parser for the name \<^verbatim>\<open>espree\<close> and otherwise returns the failed dependency.
\<close>

definition loadParser ::
  "host \<Rightarrow> factory \<Rightarrow> string \<Rightarrow> string \<Rightarrow> string \<Rightarrow> config_dependency" where
  "loadParser h f nameOrPath importerPath importerName =
     (case additionalParserPool f nameOrPath of
        Some d \<Rightarrow>
          ConfigDependency (Some d) None (Some importerPath) nameOrPath importerName importerPath
      | None \<Rightarrow>
         (let relativeTo =
                (if importerPath \<noteq> [] then importerPath else path_join h (cwd f) ''.eslintrc'');
              caught = (\<lambda>err.
                let err' =
                      (if code err = Some ''MODULE_NOT_FOUND''
                       then err\<lparr>message := ''Failed to load parser '' @ nameOrPath @ '': '' @
                              message err @ '' (relative to '' @ relativeTo @ '')''\<rparr>
                       else err)
                in if nameOrPath = ''espree''
                   then ConfigDependency (Some (espree h)) None (Some (espree_path h))
                          nameOrPath importerName importerPath
                   else ConfigDependency None (Some err') None
                          nameOrPath importerName importerPath)
          in case ModuleResolver_resolve h nameOrPath relativeTo of
               Inl err \<Rightarrow> caught err
             | Inr filePath \<Rightarrow>
                 (case require h filePath of
                    Inl err \<Rightarrow> caught err
                  | Inr d \<Rightarrow>
                      ConfigDependency (Some d) None (Some filePath)
                        nameOrPath importerName importerPath)))"

text \<open>
  \<^verbatim>\<open>_loadPlugin\<close>. \<open>loadPlugin_resolve\<close> is the \<^verbatim>\<open>try\<close>/\<^verbatim>\<open>catch\<close> statement that ends the
  function, reached with the \<open>request\<close> and \<open>id\<close> computed before it.
\<close>

definition loadPlugin_resolve ::
  "host \<Rightarrow> factory \<Rightarrow> string \<Rightarrow> string \<Rightarrow> string \<Rightarrow> string \<Rightarrow> config_dependency" where
  "loadPlugin_resolve h f request i importerPath importerName =
     (let relativeTo = path_join h (cwd f) ''.eslintrc'';
          caught = (\<lambda>err.
            let err' =
                  (if code err = Some ''MODULE_NOT_FOUND''
                   then err\<lparr>message := ''Failed to load plugin '' @ request @ '': '' @
                            message err @ '' (project root is '' @ cwd f @ '')'',
                          messageTemplate := Some ''plugin-missing'',
                          messageData := [(''pluginName'', request), (''projectRoot'', cwd f)]\<rparr>
                   else err)
            in ConfigDependency None (Some err') None i importerName importerPath)
      in case ModuleResolver_resolve h request relativeTo of
           Inl err \<Rightarrow> caught err
         | Inr filePath \<Rightarrow>
             (case require h filePath of
                Inl err \<Rightarrow> caught err
              | Inr d \<Rightarrow> ConfigDependency (Some d) None (Some filePath) i importerName importerPath))"

definition whitespaceError :: "string \<Rightarrow> string \<Rightarrow> error" where
  "whitespaceError nameOrPath request =
     \<lparr>message = ''Whitespace found in plugin name '' @ [CHR 0x27] @ nameOrPath @ [CHR 0x27],
      code = None,
      messageTemplate = Some ''whitespace-found'',
      messageData = [(''pluginName'', request)]\<rparr>"

definition loadPlugin ::
  "host \<Rightarrow> factory \<Rightarrow> string \<Rightarrow> string \<Rightarrow> string \<Rightarrow> config_dependency" where
  "loadPlugin h f nameOrPath importerPath importerName =
     (if isFilePath h nameOrPath
      then loadPlugin_resolve h f nameOrPath nameOrPath importerPath importerName
      else
        let request = normalizePackageName h nameOrPath ''eslint-plugin'';
            i = getShorthandName h request ''eslint-plugin''
        in if matchWhitespace nameOrPath
           then \<lparr>dep_definition = None,
                 dep_error = Some (whitespaceError nameOrPath request),
                 dep_filePath = None, dep_id = i,
                 dep_importerName = None, dep_importerPath = importerPath\<rparr>
           else
             (case (case additionalPluginPool f request of
                      Some p \<Rightarrow> Some p
                    | None \<Rightarrow> additionalPluginPool f i) of
                Some plugin \<Rightarrow>
                  ConfigDependency (Some plugin) None (Some importerPath) i
                    importerName importerPath
              | None \<Rightarrow> loadPlugin_resolve h f request i importerPath importerName))"

text \<open>\<^verbatim>\<open>_loadPlugins\<close>: the \<^verbatim>\<open>reduce\<close> over the names, starting from the empty object.\<close>

fun loadPlugins_reduce ::
  "host \<Rightarrow> factory \<Rightarrow> (string \<times> config_dependency) list \<Rightarrow> string list \<Rightarrow> string \<Rightarrow> string
     \<Rightarrow> error + (string \<times> config_dependency) list" where
  "loadPlugins_reduce h f m [] importerPath importerName = Inr m"
| "loadPlugins_reduce h f m (name # names) importerPath importerName =
     (if isFilePath h name
      then Inl (Error ''Plugins array cannot includes file paths.'')
      else
        let plugin = loadPlugin h f name importerPath importerName
        in loadPlugins_reduce h f (assign m (dep_id plugin) plugin) names
             importerPath importerName)"

definition loadPlugins ::
  "host \<Rightarrow> factory \<Rightarrow> string list \<Rightarrow> string \<Rightarrow> string
     \<Rightarrow> error + (string \<times> config_dependency) list" where
  "loadPlugins h f names importerPath importerName =
     loadPlugins_reduce h f [] names importerPath importerName"

subsection \<open>Override criteria\<close>

text \<open>
  Modelled from the spec: \<^verbatim>\<open>OverrideTester\<close> (lib/lookup/override-tester.js is not among
  the sources). A tester holds one group of include and exclude patterns per composed
  criterion and the base path that target paths are made relative to. \<open>create\<close> gives
  \<open>None\<close> (\<^verbatim>\<open>null\<close>) when there are no \<open>files\<close> patterns; \<open>and\<close> absorbs a \<^verbatim>\<open>null\<close>
  operand and otherwise requires the groups of both operands; \<open>test\<close> requires, for every
  group, a match of some include pattern and of no exclude pattern. Testers are values:
  the assignment \<^verbatim>\<open>element.criteria.basePath = basePath\<close> is a record update on the
  criteria of that element.
\<close>

record criteria =
  patterns :: "(string list \<times> string list) list"
  basePath :: string

definition OverrideTester_create ::
  "string list \<Rightarrow> string list \<Rightarrow> string \<Rightarrow> criteria option" where
  "OverrideTester_create includePatterns excludePatterns base =
     (if includePatterns = [] then None
      else Some \<lparr>patterns = [(includePatterns, excludePatterns)], basePath = base\<rparr>)"

definition OverrideTester_and :: "criteria option \<Rightarrow> criteria option \<Rightarrow> criteria option" where
  "OverrideTester_and a b =
     (case b of
        None \<Rightarrow> a
      | Some y \<Rightarrow>
          (case a of
             None \<Rightarrow> b
           | Some x \<Rightarrow> Some \<lparr>patterns = patterns x @ patterns y, basePath = basePath x\<rparr>))"

definition OverrideTester_test :: "host \<Rightarrow> criteria \<Rightarrow> string \<Rightarrow> bool" where
  "OverrideTester_test h c filePath =
     (let relativePath = path_relative h (basePath c) filePath
      in list_all
           (\<lambda>(includes, excludes).
              list_ex (\<lambda>p. minimatch h p relativePath) includes \<and>
              \<not> list_ex (\<lambda>p. minimatch h p relativePath) excludes)
           (patterns c))"

text \<open>
  Whether a fragment applies to a target: a \<^verbatim>\<open>null\<close> criteria applies to every path
  (the selection of \<^verbatim>\<open>extract\<close> in the spec).
\<close>

definition criteriaMatches :: "host \<Rightarrow> criteria option \<Rightarrow> string \<Rightarrow> bool" where
  "criteriaMatches h c filePath =
     (case c of None \<Rightarrow> True | Some t \<Rightarrow> OverrideTester_test h t filePath)"

subsection \<open>Config array elements\<close>

record config_array_element =
  el_name :: string
  el_filePath :: string
  el_criteria :: "criteria option"
  el_env :: "json option"
  el_globals :: "json option"
  el_parser :: "config_dependency option"
  el_parserOptions :: "json option"
  el_plugins :: "(string \<times> config_dependency) list option"
  el_processor :: "string option"
  el_root :: "bool option"
  el_rules :: "json option"
  el_settings :: "json option"

text \<open>
  The result of running a generator: \<open>None\<close> when the call stack is exhausted, the thrown
  error, or the elements yielded.
\<close>

type_synonym 'a outcome = "(error + 'a) option"

definition andThen :: "'a outcome \<Rightarrow> ('a \<Rightarrow> 'b outcome) \<Rightarrow> 'b outcome" where
  "andThen r k =
     (case r of None \<Rightarrow> None | Some (Inl e) \<Rightarrow> Some (Inl e) | Some (Inr x) \<Rightarrow> k x)"

text \<open>
  A generator that has been created and not yet run: the arguments of the call
  \<^verbatim>\<open>this._normalizeObjectConfigData(configData, filePath, name)\<close>.
\<close>

type_synonym pending = "js_value \<times> string \<times> string"

text \<open>
  Modelled from the spec: the getter \<^verbatim>\<open>root\<close> of \<^verbatim>\<open>ConfigArray\<close> (lib/lookup/config-array.js
  is not among the sources): the parent is prepended only when the first fragment of the
  child sequence does not declare \<^verbatim>\<open>root: true\<close>.
\<close>

definition ConfigArray_root :: "config_array_element list \<Rightarrow> bool" where
  "ConfigArray_root elements =
     (case elements of [] \<Rightarrow> False | e # _ \<Rightarrow> el_root e = Some True)"

definition createConfigArray ::
  "config_array_element list option \<Rightarrow> config_array_element list option
     \<Rightarrow> config_array_element list" where
  "createConfigArray elements parentConfigArray =
     (case elements of
        None \<Rightarrow> (case parentConfigArray of Some p \<Rightarrow> p | None \<Rightarrow> [])
      | Some configArray \<Rightarrow>
          (case parentConfigArray of
             Some p \<Rightarrow> if \<not> ConfigArray_root configArray then p @ configArray else configArray
           | None \<Rightarrow> configArray))"

subsection \<open>Reading config files\<close>

definition emptyObject :: config_data where
  "emptyObject = ConfigData [] [] None [] None [] None None None None None None None"

definition readFile :: "host \<Rightarrow> string \<Rightarrow> error + string" where
  "readFile h filePath =
     (case fs_readFileSync h filePath of
        Inl e \<Rightarrow> Inl e
      | Inr s \<Rightarrow> Inr (if take 3 s = [CHR 0xEF, CHR 0xBB, CHR 0xBF] then drop 3 s else s))"

definition cannotRead :: "string \<Rightarrow> error \<Rightarrow> error" where
  "cannotRead filePath e =
     e\<lparr>message := ''Cannot read config file: '' @ filePath @ [CHR 0x0A] @ ''Error: '' @ message e\<rparr>"

definition orEmptyObject :: "js_value \<Rightarrow> js_value" where
  "orEmptyObject v = (case v of Falsy \<Rightarrow> Obj emptyObject None | Obj c x \<Rightarrow> Obj c x)"

definition loadYAMLConfigFile :: "host \<Rightarrow> string \<Rightarrow> error + js_value" where
  "loadYAMLConfigFile h filePath =
     (case readFile h filePath of
        Inl e \<Rightarrow> Inl (cannotRead filePath e)
      | Inr s \<Rightarrow>
          (case yaml_safeLoad h s of
             Inl e \<Rightarrow> Inl (cannotRead filePath e)
           | Inr v \<Rightarrow> Inr (orEmptyObject v)))"

definition failedToReadJson :: "string \<Rightarrow> error \<Rightarrow> error" where
  "failedToReadJson filePath e =
     (let e' = cannotRead filePath e
      in e'\<lparr>messageTemplate := Some ''failed-to-read-json'',
            messageData := [(''path'', filePath), (''message'', message e')]\<rparr>)"

definition loadJSONConfigFile :: "host \<Rightarrow> string \<Rightarrow> error + js_value" where
  "loadJSONConfigFile h filePath =
     (case readFile h filePath of
        Inl e \<Rightarrow> Inl (failedToReadJson filePath e)
      | Inr s \<Rightarrow>
          (case JSON_parse h (stripComments h s) of
             Inl e \<Rightarrow> Inl (failedToReadJson filePath e)
           | Inr v \<Rightarrow> Inr v))"

definition loadLegacyConfigFile :: "host \<Rightarrow> string \<Rightarrow> error + js_value" where
  "loadLegacyConfigFile h filePath =
     (case readFile h filePath of
        Inl e \<Rightarrow> Inl (cannotRead filePath e)
      | Inr s \<Rightarrow>
          (case yaml_safeLoad h (stripComments h s) of
             Inl e \<Rightarrow> Inl (cannotRead filePath e)
           | Inr v \<Rightarrow> Inr (orEmptyObject v)))"

definition loadJSConfigFile :: "host \<Rightarrow> string \<Rightarrow> error + js_value" where
  "loadJSConfigFile h filePath =
     (case importFresh h filePath of
        Inl e \<Rightarrow> Inl (cannotRead filePath e)
      | Inr v \<Rightarrow> Inr v)"

definition configFieldNotFound :: error where
  "configFieldNotFound =
     (Error (''package.json file doesn'' @ [CHR 0x27] @ ''t have '' @ [CHR 0x27] @
        ''eslintConfig'' @ [CHR 0x27] @ '' field.''))
       \<lparr>code := Some ''ESLINT_CONFIG_FIELD_NOT_FOUND''\<rparr>"

text \<open>
  \<^verbatim>\<open>loadPackageJSONConfigFile\<close>; \<^verbatim>\<open>Object.hasOwnProperty.call\<close> throws a type error on
  \<^verbatim>\<open>null\<close>. Every error, also one of \<open>loadJSONConfigFile\<close>, passes the \<^verbatim>\<open>catch\<close> block.
\<close>

definition loadPackageJSONConfigFile :: "host \<Rightarrow> string \<Rightarrow> error + js_value" where
  "loadPackageJSONConfigFile h filePath =
     (case loadJSONConfigFile h filePath of
        Inl e \<Rightarrow> Inl (cannotRead filePath e)
      | Inr Falsy \<Rightarrow>
          Inl (cannotRead filePath (Error ''Cannot convert undefined or null to object''))
      | Inr (Obj c None) \<Rightarrow> Inl (cannotRead filePath configFieldNotFound)
      | Inr (Obj c (Some eslintConfig)) \<Rightarrow> Inr eslintConfig)"

definition loadConfigFile :: "host \<Rightarrow> string \<Rightarrow> error + js_value" where
  "loadConfigFile h filePath =
     (let ext = path_extname h filePath
      in if ext = ''.js'' then loadJSConfigFile h filePath
         else if ext = ''.json'' then
           (if path_basename h filePath = ''package.json''
            then loadPackageJSONConfigFile h filePath
            else loadJSONConfigFile h filePath)
         else if ext = ''.yaml'' \<or> ext = ''.yml'' then loadYAMLConfigFile h filePath
         else loadLegacyConfigFile h filePath)"

subsection \<open>Normalizing config data\<close>

definition typeErrorNotObject :: error where
  "typeErrorNotObject = Error ''Cannot destructure the config data as it is null.''"

text \<open>
  \<^verbatim>\<open>_normalizeConfigData\<close>: the file path is made absolute (\<open>resolveFilePath\<close>, the first
  statement), the name defaults to the path relative to the working directory, the schema
  is validated, and the generator of \<^verbatim>\<open>_normalizeObjectConfigData\<close> is returned without
  being run.
\<close>

definition resolveFilePath :: "host \<Rightarrow> factory \<Rightarrow> string \<Rightarrow> string" where
  "resolveFilePath h f filePath =
     (if filePath = [] then [] else path_resolve h (cwd f) filePath)"

definition normalizeConfigData ::
  "host \<Rightarrow> factory \<Rightarrow> js_value \<Rightarrow> string \<Rightarrow> string \<Rightarrow> error + pending" where
  "normalizeConfigData h f configData filePath0 name0 =
     (let filePath = resolveFilePath h f filePath0;
          name = (if name0 = []
                  then (if filePath = [] then [] else path_relative h (cwd f) filePath)
                  else name0)
      in case validateConfigSchema h configData (if name = [] then filePath else name) of
           Some e \<Rightarrow> Inl e
         | None \<Rightarrow> Inr (configData, filePath, name))"

definition loadConfigData :: "host \<Rightarrow> factory \<Rightarrow> string \<Rightarrow> string \<Rightarrow> error + pending" where
  "loadConfigData h f filePath name =
     (case loadConfigFile h filePath of
        Inl e \<Rightarrow> Inl e
      | Inr configData \<Rightarrow> normalizeConfigData h f configData filePath name)"

text \<open>The separator of config names: a right-pointing double angle between spaces.\<close>

definition arrow :: string where
  "arrow = [CHR 0x20, CHR 0xC2, CHR 0xBB, CHR 0x20]"

definition loadExtendedBuiltInConfig ::
  "host \<Rightarrow> factory \<Rightarrow> string \<Rightarrow> string \<Rightarrow> error + pending" where
  "loadExtendedBuiltInConfig h f extendName importerName =
     (let name = importerName @ arrow @ extendName
      in if extendName = ''eslint:recommended''
         then loadConfigData h f (eslintRecommendedPath h) name
         else if extendName = ''eslint:all''
         then loadConfigData h f (eslintAllPath h) name
         else Inl (configMissingError extendName))"

text \<open>\<^verbatim>\<open>String.prototype.lastIndexOf\<close> for one character and \<^verbatim>\<open>String.prototype.slice\<close>.\<close>

definition lastIndexOf :: "string \<Rightarrow> char \<Rightarrow> int" where
  "lastIndexOf s c =
     (case filter (\<lambda>i. s ! i = c) (rev [0..<length s]) of [] \<Rightarrow> - 1 | i # _ \<Rightarrow> int i)"

definition slice :: "string \<Rightarrow> int \<Rightarrow> int \<Rightarrow> string" where
  "slice s start fin =
     (let len = int (length s);
          from = (if start < 0 then max (len + start) 0 else min start len);
          to = (if fin < 0 then max (len + fin) 0 else min fin len)
      in take (nat (to - from)) (drop (nat from) s))"

definition loadExtendedPluginConfig ::
  "host \<Rightarrow> factory \<Rightarrow> string \<Rightarrow> string \<Rightarrow> string \<Rightarrow> error + pending" where
  "loadExtendedPluginConfig h f extendName importerPath importerName =
     (let slashIndex = lastIndexOf extendName (CHR ''/'');
          pluginName = slice extendName 7 slashIndex;
          configName = slice extendName (slashIndex + 1) (int (length extendName))
      in if isFilePath h pluginName
         then Inl (Error ([CHR 0x27] @ ''extends'' @ [CHR 0x27] @
                     '' cannot use a file path for plugins.''))
         else
           (let plugin = loadPlugin h f pluginName importerPath importerName;
                configData =
                  (case dep_definition plugin of
                     None \<Rightarrow> Falsy
                   | Some d \<Rightarrow>
                       (case map_of (configs d) configName of None \<Rightarrow> Falsy | Some v \<Rightarrow> v))
            in case configData of
                 Obj c x \<Rightarrow>
                   normalizeConfigData h f configData
                     (case dep_filePath plugin of None \<Rightarrow> [] | Some p \<Rightarrow> p)
                     (importerName @ arrow @ ''plugin:'' @ dep_id plugin @ ''/'' @ configName)
               | Falsy \<Rightarrow>
                   Inl (case dep_error plugin of
                          Some e \<Rightarrow> e
                        | None \<Rightarrow> configMissingError extendName)))"

definition loadExtendedShareableConfig ::
  "host \<Rightarrow> factory \<Rightarrow> string \<Rightarrow> string \<Rightarrow> string \<Rightarrow> error + pending" where
  "loadExtendedShareableConfig h f extendName importerPath importerName =
     (let relativeTo =
            (if importerPath \<noteq> [] then importerPath else path_join h (cwd f) ''.eslintrc'');
          request =
            (if isFilePath h extendName then extendName
             else if startsWith extendName ''.'' then ''./'' @ extendName
             else normalizePackageName h extendName ''eslint-config'');
          attempt =
            (case ModuleResolver_resolve h request relativeTo of
               Inl e \<Rightarrow> Inl e
             | Inr filePath \<Rightarrow> loadConfigData h f filePath (importerName @ arrow @ request))
      in case attempt of
           Inr p \<Rightarrow> Inr p
         | Inl e \<Rightarrow>
             if code e \<noteq> Some ''MODULE_NOT_FOUND'' then Inl e
             else Inl (configMissingError extendName))"

text \<open>
  \<^verbatim>\<open>_loadExtends\<close>. Its \<^verbatim>\<open>catch\<close> block (\<open>referencedFrom\<close>) sees the errors thrown before
  the generator is returned; errors thrown while the generator runs pass it by.
\<close>

definition referencedFrom :: "string \<Rightarrow> string \<Rightarrow> error \<Rightarrow> error" where
  "referencedFrom importerPath importerName e =
     e\<lparr>message := message e @ [CHR 0x0A] @ ''Referenced from: '' @
          (if importerPath \<noteq> [] then importerPath else importerName)\<rparr>"

definition loadExtends ::
  "host \<Rightarrow> factory \<Rightarrow> string \<Rightarrow> string \<Rightarrow> string \<Rightarrow> error + pending" where
  "loadExtends h f extendName importerPath importerName =
     (case (if startsWith extendName ''eslint:''
            then loadExtendedBuiltInConfig h f extendName importerName
            else if startsWith extendName ''plugin:''
            then loadExtendedPluginConfig h f extendName importerPath importerName
            else loadExtendedShareableConfig h f extendName importerPath importerName) of
        Inl e \<Rightarrow> Inl (referencedFrom importerPath importerName e)
      | Inr p \<Rightarrow> Inr p)"

text \<open>
  Running a pending generator, given the method \<^verbatim>\<open>_normalizeObjectConfigData\<close> as the
  function \<open>self\<close>; the parameter destructuring fails on \<^verbatim>\<open>null\<close>.
\<close>

definition spread ::
  "(config_data \<Rightarrow> string \<Rightarrow> string \<Rightarrow> config_array_element list outcome) \<Rightarrow> pending
     \<Rightarrow> config_array_element list outcome" where
  "spread self p =
     (case p of
        (Falsy, filePath, name) \<Rightarrow> Some (Inl typeErrorNotObject)
      | (Obj c x, filePath, name) \<Rightarrow> self c filePath name)"

text \<open>The loop \<^verbatim>\<open>for (const extendName of extendList.filter(Boolean))\<close>.\<close>

fun flattenExtends ::
  "(config_data \<Rightarrow> string \<Rightarrow> string \<Rightarrow> config_array_element list outcome) \<Rightarrow> host \<Rightarrow> factory
     \<Rightarrow> string list \<Rightarrow> string \<Rightarrow> string \<Rightarrow> config_array_element list outcome" where
  "flattenExtends self h f [] filePath name = Some (Inr [])"
| "flattenExtends self h f (extendName # extendList) filePath name =
     (case loadExtends h f extendName filePath name of
        Inl e \<Rightarrow> Some (Inl e)
      | Inr p \<Rightarrow>
          andThen (spread self p) (\<lambda>elements.
          andThen (flattenExtends self h f extendList filePath name) (\<lambda>others.
            Some (Inr (elements @ others)))))"

text \<open>The decimal numeral of an index, as a template literal prints it.\<close>

fun decimal :: "nat \<Rightarrow> string" where
  "decimal n =
     (if n < 10 then [char_of (48 + n)] else decimal (n div 10) @ [char_of (48 + n mod 10)])"

declare decimal.simps [simp del]

text \<open>The loop \<^verbatim>\<open>for (let i = 0; i < overrideList.length; ++i)\<close>, from index \<open>i\<close> on.\<close>

fun flattenOverrides ::
  "(config_data \<Rightarrow> string \<Rightarrow> string \<Rightarrow> config_array_element list outcome) \<Rightarrow> nat
     \<Rightarrow> config_data list \<Rightarrow> string \<Rightarrow> string \<Rightarrow> config_array_element list outcome" where
  "flattenOverrides self i [] filePath name = Some (Inr [])"
| "flattenOverrides self i (override # overrideList) filePath name =
     andThen (self override filePath (name @ ''#overrides['' @ decimal i @ '']'')) (\<lambda>elements.
     andThen (flattenOverrides self (Suc i) overrideList filePath name) (\<lambda>others.
       Some (Inr (elements @ others))))"

text \<open>
  \<^verbatim>\<open>_takeFileExtensionProcessors\<close>. \<open>fileExtensionProcessors\<close> lists, in the order of the
  two nested loops, the plugin and processor ids that reach the \<^verbatim>\<open>yield*\<close>.
\<close>

definition fileExtensionProcessors ::
  "(string \<times> config_dependency) list \<Rightarrow> (string \<times> string) list" where
  "fileExtensionProcessors loaded =
     concat (map (\<lambda>pluginId.
       (case map_of loaded pluginId of
          None \<Rightarrow> []
        | Some plugin \<Rightarrow>
            (case dep_definition plugin of
               None \<Rightarrow> []
             | Some d \<Rightarrow>
                 map (Pair pluginId) (filter (\<lambda>processorId. startsWith processorId ''.'')
                   (processors d))))) (Object_keys loaded))"

definition processorConfig :: "string \<Rightarrow> string \<Rightarrow> config_data" where
  "processorConfig pluginId processorId =
     ConfigData [''*'' @ processorId] [] None [] None [] None None None
       (Some (pluginId @ ''/'' @ processorId)) None None None"

fun takeFileExtensionProcessors_loop ::
  "(config_data \<Rightarrow> string \<Rightarrow> string \<Rightarrow> config_array_element list outcome)
     \<Rightarrow> (string \<times> string) list \<Rightarrow> string \<Rightarrow> string \<Rightarrow> config_array_element list outcome" where
  "takeFileExtensionProcessors_loop self [] filePath name = Some (Inr [])"
| "takeFileExtensionProcessors_loop self ((pluginId, processorId) # rest) filePath name =
     andThen
       (self (processorConfig pluginId processorId) filePath
          (name @ ''#processors[\"'' @ pluginId @ ''/'' @ processorId @ ''\"]''))
       (\<lambda>elements.
     andThen (takeFileExtensionProcessors_loop self rest filePath name) (\<lambda>others.
       Some (Inr (elements @ others))))"

definition takeFileExtensionProcessors ::
  "(config_data \<Rightarrow> string \<Rightarrow> string \<Rightarrow> config_array_element list outcome)
     \<Rightarrow> (string \<times> config_dependency) list \<Rightarrow> string \<Rightarrow> string
     \<Rightarrow> config_array_element list outcome" where
  "takeFileExtensionProcessors self loaded filePath name =
     takeFileExtensionProcessors_loop self (fileExtensionProcessors loaded) filePath name"

text \<open>The element that \<^verbatim>\<open>_normalizeObjectConfigDataBody\<close> yields for the config itself.\<close>

definition ownElement ::
  "config_data \<Rightarrow> string \<Rightarrow> string \<Rightarrow> config_dependency option
     \<Rightarrow> (string \<times> config_dependency) list option \<Rightarrow> config_array_element" where
  "ownElement configBody filePath name loadedParser loadedPlugins =
     \<lparr>el_name = name,
      el_filePath = filePath,
      el_criteria = None,
      el_env = env configBody,
      el_globals = globals configBody,
      el_parser = loadedParser,
      el_parserOptions = parserOptions configBody,
      el_plugins = loadedPlugins,
      el_processor = processor configBody,
      el_root = root configBody,
      el_rules = rules configBody,
      el_settings = settings configBody\<rparr>"

text \<open>
  \<^verbatim>\<open>_normalizeObjectConfigDataBody\<close>, with \<^verbatim>\<open>this._normalizeObjectConfigData\<close> as \<open>self\<close>.
  A parser name that is the empty string is falsy and loads nothing.
\<close>

definition normalizeObjectConfigDataBody ::
  "(config_data \<Rightarrow> string \<Rightarrow> string \<Rightarrow> config_array_element list outcome) \<Rightarrow> host \<Rightarrow> factory
     \<Rightarrow> config_data \<Rightarrow> string \<Rightarrow> string \<Rightarrow> config_array_element list outcome" where
  "normalizeObjectConfigDataBody self h f configBody filePath name =
     andThen
       (flattenExtends self h f (filter (\<lambda>x. x \<noteq> []) (extends configBody)) filePath name)
       (\<lambda>extended.
          let loadedParser =
                (case parser configBody of
                   None \<Rightarrow> None
                 | Some parserName \<Rightarrow>
                     if parserName = [] then None
                     else Some (loadParser h f parserName filePath name))
          in case (case plugins configBody of
                     None \<Rightarrow> Inr None
                   | Some pluginList \<Rightarrow>
                       (case loadPlugins h f pluginList filePath name of
                          Inl e \<Rightarrow> Inl e
                        | Inr m \<Rightarrow> Inr (Some m))) of
               Inl e \<Rightarrow> Some (Inl e)
             | Inr loadedPlugins \<Rightarrow>
                 andThen
                   (case loadedPlugins of
                      None \<Rightarrow> Some (Inr [])
                    | Some m \<Rightarrow> takeFileExtensionProcessors self m filePath name)
                   (\<lambda>processorElements.
                 andThen (flattenOverrides self 0 (overrides configBody) filePath name)
                   (\<lambda>overrideElements.
                      Some (Inr (extended @ processorElements @
                        [ownElement configBody filePath name loadedParser loadedPlugins] @
                        overrideElements)))))"

text \<open>
  The body of the loop of \<^verbatim>\<open>_normalizeObjectConfigData\<close> that applies the criteria of the
  level to one element.
\<close>

definition applyCriteria ::
  "criteria option \<Rightarrow> string \<Rightarrow> config_array_element \<Rightarrow> config_array_element" where
  "applyCriteria levelCriteria base element =
     (case OverrideTester_and levelCriteria (el_criteria element) of
        None \<Rightarrow> element\<lparr>el_criteria := None\<rparr>
      | Some c \<Rightarrow> element\<lparr>el_criteria := Some (c\<lparr>basePath := base\<rparr>), el_root := None\<rparr>)"

text \<open>
  \<^verbatim>\<open>_normalizeObjectConfigData\<close>. \<open>levelBasePath\<close> is its constant \<^verbatim>\<open>basePath\<close>. The
  argument \<open>depth\<close> bounds the calls of the method that are active at once.
\<close>

definition levelBasePath :: "host \<Rightarrow> factory \<Rightarrow> string \<Rightarrow> string" where
  "levelBasePath h f filePath = (if filePath \<noteq> [] then path_dirname h filePath else cwd f)"

primrec normalizeObjectConfigData ::
  "host \<Rightarrow> factory \<Rightarrow> nat \<Rightarrow> config_data \<Rightarrow> string \<Rightarrow> string
     \<Rightarrow> config_array_element list outcome" where
  "normalizeObjectConfigData h f 0 = (\<lambda>configData filePath name. None)"
| "normalizeObjectConfigData h f (Suc depth) = (\<lambda>configData filePath name.
     let base = levelBasePath h f filePath;
         levelCriteria =
           OverrideTester_create (files configData) (excludedFiles configData) base
     in andThen
          (normalizeObjectConfigDataBody (normalizeObjectConfigData h f depth) h f
             configData filePath name)
          (\<lambda>elements. Some (Inr (map (applyCriteria levelCriteria base) elements))))"

subsection \<open>Searching a directory\<close>

fun loadConfigDataOnDirectory_loop ::
  "host \<Rightarrow> factory \<Rightarrow> string list \<Rightarrow> string \<Rightarrow> string \<Rightarrow> error + pending option" where
  "loadConfigDataOnDirectory_loop h f [] directoryPath name = Inr None"
| "loadConfigDataOnDirectory_loop h f (filename # filenames) directoryPath name =
     (let filePath = path_join h directoryPath filename
      in case loadConfigFile h filePath of
           Inl e \<Rightarrow>
             if code e \<noteq> Some ''ENOENT'' \<and> code e \<noteq> Some ''MODULE_NOT_FOUND'' \<and>
                code e \<noteq> Some ''ESLINT_CONFIG_FIELD_NOT_FOUND''
             then Inl e
             else loadConfigDataOnDirectory_loop h f filenames directoryPath name
         | Inr Falsy \<Rightarrow> loadConfigDataOnDirectory_loop h f filenames directoryPath name
         | Inr (Obj c x) \<Rightarrow>
             (case normalizeConfigData h f (Obj c x) filePath name of
                Inl e \<Rightarrow> Inl e
              | Inr p \<Rightarrow> Inr (Some p)))"

definition loadConfigDataOnDirectory ::
  "host \<Rightarrow> factory \<Rightarrow> string \<Rightarrow> string \<Rightarrow> error + pending option" where
  "loadConfigDataOnDirectory h f directoryPath name =
     loadConfigDataOnDirectory_loop h f configFilenames directoryPath name"

subsection \<open>Public interface\<close>

text \<open>
  The three methods spread the generator into a \<^verbatim>\<open>ConfigArray\<close>; \<open>depth\<close> bounds the call
  stack of that run.
\<close>

definition createFrom ::
  "host \<Rightarrow> factory \<Rightarrow> nat \<Rightarrow> error + pending option \<Rightarrow> config_array_element list option
     \<Rightarrow> config_array_element list outcome" where
  "createFrom h f depth elements parent =
     (case elements of
        Inl e \<Rightarrow> Some (Inl e)
      | Inr None \<Rightarrow> Some (Inr (createConfigArray None parent))
      | Inr (Some p) \<Rightarrow>
          andThen (spread (normalizeObjectConfigData h f depth) p) (\<lambda>configArray.
            Some (Inr (createConfigArray (Some configArray) parent))))"

definition create ::
  "host \<Rightarrow> factory \<Rightarrow> nat \<Rightarrow> js_value \<Rightarrow> string \<Rightarrow> string \<Rightarrow> config_array_element list option
     \<Rightarrow> config_array_element list outcome" where
  "create h f depth configData filePath name parent =
     createFrom h f depth
       (case configData of
          Falsy \<Rightarrow> Inr None
        | Obj c x \<Rightarrow> map_sum id Some (normalizeConfigData h f configData filePath name))
       parent"

definition loadFile ::
  "host \<Rightarrow> factory \<Rightarrow> nat \<Rightarrow> string \<Rightarrow> string \<Rightarrow> config_array_element list option
     \<Rightarrow> config_array_element list outcome" where
  "loadFile h f depth filePath name parent =
     (let absolutePath = path_resolve h (cwd f) filePath
      in createFrom h f depth (map_sum id Some (loadConfigData h f absolutePath name)) parent)"

definition loadOnDirectory ::
  "host \<Rightarrow> factory \<Rightarrow> nat \<Rightarrow> string \<Rightarrow> string \<Rightarrow> config_array_element list option
     \<Rightarrow> config_array_element list outcome" where
  "loadOnDirectory h f depth directoryPath name parent =
     (let absolutePath = path_resolve h (cwd f) directoryPath
      in createFrom h f depth (loadConfigDataOnDirectory h f absolutePath name) parent)"

section \<open>A concrete project\<close>

text \<open>
  A small host on which the functions can be run: POSIX-style paths, a table of files
  whose contents are parsed through a second table, modules found in the
  \<^verbatim>\<open>node_modules\<close> directories of the importing directory and of its ancestors, and the
  naming convention \<^verbatim>\<open>prefix-name\<close> without scopes.
\<close>

definition posix_dirname :: "string \<Rightarrow> string" where
  "posix_dirname p =
     (let i = lastIndexOf p (CHR ''/'')
      in if i < 0 then ''.'' else if i = 0 then ''/'' else take (nat i) p)"

definition posix_basename :: "string \<Rightarrow> string" where
  "posix_basename p = drop (nat (lastIndexOf p (CHR ''/'') + 1)) p"

definition posix_extname :: "string \<Rightarrow> string" where
  "posix_extname p =
     (let b = posix_basename p; i = lastIndexOf b (CHR ''.'')
      in if i \<le> 0 then [] else drop (nat i) b)"

definition posix_resolve :: "string \<Rightarrow> string \<Rightarrow> string" where
  "posix_resolve base p = (if startsWith p ''/'' then p else base @ ''/'' @ p)"

definition posix_relative :: "string \<Rightarrow> string \<Rightarrow> string" where
  "posix_relative base p =
     (if startsWith p (base @ ''/'') then drop (length base + 1) p else p)"

definition posix_ancestors :: "string \<Rightarrow> string list" where
  "posix_ancestors p =
     p # map (\<lambda>i. take i p) (filter (\<lambda>i. p ! i = CHR ''/'') (rev [0..<length p]))"

definition notFound :: "string \<Rightarrow> string \<Rightarrow> error" where
  "notFound c what = (Error (''Cannot find '' @ what))\<lparr>code := Some c\<rparr>"

definition demo_config :: "string list \<Rightarrow> string list \<Rightarrow> config_data list \<Rightarrow> string list option
    \<Rightarrow> bool option \<Rightarrow> int \<Rightarrow> config_data" where
  "demo_config pats bases nested pluginList rootFlag n =
     ConfigData pats [] None bases None nested None None pluginList None rootFlag
       (Some (JObj [(''semi'', JNum n)])) None"

definition demo_scoped_config :: config_data where
  "demo_scoped_config =
     demo_config [''*.xxx''] [''root''] [demo_config [''*.min.xxx''] [] [] None None 4]
       None None 3"

definition demo_app_config :: config_data where
  "demo_app_config =
     demo_config [] [''base'', ''eslint:recommended'']
       [demo_scoped_config, demo_config [''*.zzz''] [] [] None None 5]
       (Some [''ext'']) (Some True) 2"

definition demo_parsed :: "(string \<times> js_value) list" where
  "demo_parsed =
     [(''app'', Obj demo_app_config None),
      (''base'', Obj (demo_config [] [] [demo_config [''**/foo/**/*.js''] [] [] None None 7]
                       None None 6) None),
      (''root'', Obj (demo_config [] [] [] None (Some True) 8) None),
      (''recommended'', Obj (demo_config [] [] [] None None 9) None),
      (''all'', Obj (demo_config [] [] [] None None 10) None),
      (''manifest'', Obj emptyObject None)]"

definition demo_files :: "(string \<times> string) list" where
  "demo_files =
     [(''/proj/app/.eslintrc.json'', ''app''),
      (''/proj/node_modules/eslint-config-base/index.js'', ''base''),
      (''/proj/node_modules/eslint-config-root/index.js'', ''root''),
      (''/eslint/conf/eslint-recommended.js'', ''recommended''),
      (''/eslint/conf/eslint-all.js'', ''all''),
      (''/proj/lib/package.json'', ''manifest''),
      (''/proj/bad/.eslintrc.yaml'', ''{ unbalanced'')]"

definition demo_modules :: "(string \<times> module_def) list" where
  "demo_modules =
     [(''/proj/node_modules/eslint-plugin-ext/index.js'',
         ModuleDef [] [''.abc'', ''other''] JNull),
      (''/proj/node_modules/eslint-plugin-subdir/index.js'', ModuleDef [] [] (JStr ''root'')),
      (''/proj/subdir/node_modules/eslint-plugin-subdir/index.js'',
         ModuleDef [] [] (JStr ''subdir'')),
      (''/proj/node_modules/xxx-parser/index.js'', ModuleDef [] [] (JStr ''xxx-parser'')),
      (''/proj/subdir/node_modules/xxx-parser/index.js'',
         ModuleDef [] [] (JStr ''subdir/xxx-parser''))]"

definition demo_broken :: "string list" where
  "demo_broken = [''/proj/node_modules/eslint-plugin-broken/index.js'']"

definition demo_exists :: "string \<Rightarrow> bool" where
  "demo_exists p \<longleftrightarrow>
     p \<in> set (map fst demo_files) \<or> p \<in> set (map fst demo_modules) \<or> p \<in> set demo_broken"

definition demo_resolve :: "string \<Rightarrow> string \<Rightarrow> error + string" where
  "demo_resolve request relativeTo =
     (let dir = posix_dirname relativeTo;
          candidates =
            (if startsWith request ''/'' then [request, request @ ''.js'']
             else if dotPathPrefix request
             then [dir @ ''/'' @ drop 2 request, dir @ ''/'' @ drop 2 request @ ''.js'']
             else map (\<lambda>d. d @ ''/node_modules/'' @ request @ ''/index.js'')
                    (posix_ancestors dir))
      in case filter demo_exists candidates of
           [] \<Rightarrow> Inl (notFound ''MODULE_NOT_FOUND'' (''module '' @ request))
         | p # _ \<Rightarrow> Inr p)"

definition demo_require :: "string \<Rightarrow> error + module_def" where
  "demo_require p =
     (case map_of demo_modules p of
        Some d \<Rightarrow> Inr d
      | None \<Rightarrow>
          if p \<in> set demo_broken then Inl (Error ''error thrown while loading this module'')
          else Inl (notFound ''MODULE_NOT_FOUND'' (''module '' @ p)))"

definition demo_parse :: "string \<Rightarrow> error + js_value" where
  "demo_parse s =
     (case map_of demo_parsed s of
        Some v \<Rightarrow> Inr v
      | None \<Rightarrow> Inl (Error ''Unexpected token''))"

definition demo_validate :: "js_value \<Rightarrow> string \<Rightarrow> error option" where
  "demo_validate v source =
     (case v of
        Falsy \<Rightarrow> Some (Error (''ESLint configuration in '' @ source @ '' is invalid''))
      | Obj c x \<Rightarrow>
          if files c \<noteq> [] \<or> excludedFiles c \<noteq> [] \<or> x \<noteq> None
          then Some (Error (''ESLint configuration in '' @ source @ '' is invalid''))
          else None)"

definition demo_host :: host where
  "demo_host =
     \<lparr>path_resolve = posix_resolve,
      path_dirname = posix_dirname,
      path_join = (\<lambda>a b. a @ ''/'' @ b),
      path_relative = posix_relative,
      path_isAbsolute = (\<lambda>p. startsWith p ''/''),
      path_extname = posix_extname,
      path_basename = posix_basename,
      fs_readFileSync = (\<lambda>p. case map_of demo_files p of
                                Some s \<Rightarrow> Inr s
                              | None \<Rightarrow> Inl (notFound ''ENOENT'' (''file '' @ p))),
      importFresh = (\<lambda>p. case map_of demo_files p of
                            Some s \<Rightarrow> demo_parse s
                          | None \<Rightarrow> Inl (notFound ''MODULE_NOT_FOUND'' (''module '' @ p))),
      JSON_parse = demo_parse,
      yaml_safeLoad = demo_parse,
      stripComments = (\<lambda>s. s),
      ModuleResolver_resolve = demo_resolve,
      require = demo_require,
      normalizePackageName =
        (\<lambda>name prefix. if startsWith name (prefix @ ''-'') then name else prefix @ ''-'' @ name),
      getShorthandName =
        (\<lambda>fullname prefix.
           if startsWith fullname (prefix @ ''-'') then drop (length prefix + 1) fullname
           else fullname),
      validateConfigSchema = demo_validate,
      minimatch = (\<lambda>pattern p. startsWith pattern ''*'' \<and>
                     drop (length p - (length pattern - 1)) p = drop 1 pattern),
      espree = ModuleDef [] [] (JStr ''espree''),
      espree_path = ''/eslint/node_modules/espree/espree.js'',
      eslintRecommendedPath = ''/eslint/conf/eslint-recommended.js'',
      eslintAllPath = ''/eslint/conf/eslint-all.js''\<rparr>"

definition demo_factory :: factory where
  "demo_factory =
     \<lparr>additionalParserPool = Map.empty,
      additionalPluginPool = [''pooled'' \<mapsto> ModuleDef [] [] (JStr ''pooled'')],
      cwd = ''/proj''\<rparr>"





section \<open>Notions used in the statements\<close>


text \<open>
  The error codes that the directory search passes over, and the candidates it passes
  over: a file whose load fails with such a code, or whose value is falsy.
\<close>

definition softCode :: "string option \<Rightarrow> bool" where
  "softCode c \<longleftrightarrow>
     c = Some ''ENOENT'' \<or> c = Some ''MODULE_NOT_FOUND'' \<or>
     c = Some ''ESLINT_CONFIG_FIELD_NOT_FOUND''"

definition skipsCandidate :: "host \<Rightarrow> string \<Rightarrow> bool" where
  "skipsCandidate h filePath =
     (case loadConfigFile h filePath of
        Inl e \<Rightarrow> softCode (code e)
      | Inr Falsy \<Rightarrow> True
      | Inr (Obj c x) \<Rightarrow> False)"

text \<open>The elements of the option \<^verbatim>\<open>parent\<close>.\<close>

definition parentElements :: "config_array_element list option \<Rightarrow> config_array_element list" where
  "parentElements parent = (case parent of None \<Rightarrow> [] | Some p \<Rightarrow> p)"

text \<open>
  The constant \<^verbatim>\<open>parser\<close> of \<^verbatim>\<open>_normalizeObjectConfigDataBody\<close>:
  \<^verbatim>\<open>parserName && this._loadParser(parserName, filePath, name)\<close>.
\<close>

definition loadedParser :: "host \<Rightarrow> factory \<Rightarrow> config_data \<Rightarrow> string \<Rightarrow> string \<Rightarrow> config_dependency option" where
  "loadedParser h f c filePath name =
     (case parser c of
        None \<Rightarrow> None
      | Some parserName \<Rightarrow>
          if parserName = [] then None else Some (loadParser h f parserName filePath name))"

section \<open>Properties\<close>

subsection \<open>Auxiliary facts\<close>

lemma andThen_simps [simp]:
  "andThen None k = None"
  "andThen (Some (Inl e)) k = Some (Inl e)"
  "andThen (Some (Inr x)) k = k x"
  by (simp_all add: andThen_def)

lemma loadPlugins_reduce_file_path:
  "list_ex (isFilePath h) names \<Longrightarrow>
   loadPlugins_reduce h f m names importerPath importerName =
     Inl (Error ''Plugins array cannot includes file paths.'')"
  by (induction names arbitrary: m) (auto simp: Let_def)



lemma isFilePath_update [simp]:
  "isFilePath (h\<lparr>ModuleResolver_resolve := r\<rparr>) n = isFilePath h n"
  "isFilePath (h\<lparr>require := q\<rparr>) n = isFilePath h n"
  "isFilePath (h\<lparr>normalizePackageName := g\<rparr>) n = isFilePath h n"
  by (simp_all add: isFilePath_def)





lemma andThen_Inr:
  "andThen r k = Some (Inr y) \<longleftrightarrow> (\<exists>x. r = Some (Inr x) \<and> k x = Some (Inr y))"
  by (auto simp: andThen_def split: option.splits sum.splits)

lemma normalizeObjectConfigData_Inr:
  assumes "normalizeObjectConfigData h f depth c filePath name = Some (Inr elements)"
  shows "\<exists>d body. depth = Suc d \<and>
           normalizeObjectConfigDataBody (normalizeObjectConfigData h f d) h f c filePath name =
             Some (Inr body) \<and>
           elements =
             map (applyCriteria
                    (OverrideTester_create (files c) (excludedFiles c) (levelBasePath h f filePath))
                    (levelBasePath h f filePath)) body"
proof (cases depth)
  case 0
  with assms show ?thesis by simp
next
  case (Suc d)
  with assms show ?thesis by (auto simp: Let_def andThen_Inr)
qed

lemma normalizeObjectConfigDataBody_Inr:
  assumes "normalizeObjectConfigDataBody self h f c filePath name = Some (Inr body)"
  shows "\<exists>loaded extended processorElements overridden.
           flattenExtends self h f (filter (\<lambda>x. x \<noteq> []) (extends c)) filePath name =
             Some (Inr extended) \<and>
           map_option (\<lambda>names. loadPlugins h f names filePath name) (plugins c) =
             map_option Inr loaded \<and>
           (case loaded of
              None \<Rightarrow> Some (Inr [])
            | Some m \<Rightarrow> takeFileExtensionProcessors self m filePath name) =
             Some (Inr processorElements) \<and>
           flattenOverrides self 0 (overrides c) filePath name = Some (Inr overridden) \<and>
           body = extended @ processorElements @
             [ownElement c filePath name (loadedParser h f c filePath name) loaded] @ overridden"
proof (cases "plugins c")
  case None
  with assms show ?thesis
    unfolding normalizeObjectConfigDataBody_def loadedParser_def
    by (intro exI [of _ None]) (auto simp: andThen_Inr Let_def)
next
  case (Some names)
  with assms obtain m where m: "loadPlugins h f names filePath name = Inr m"
    unfolding normalizeObjectConfigDataBody_def
    by (auto simp: andThen_Inr Let_def split: sum.splits)
  with assms Some show ?thesis
    unfolding normalizeObjectConfigDataBody_def loadedParser_def
    by (intro exI [of _ "Some m"]) (auto simp: andThen_Inr Let_def)
qed

lemma flattenExtends_Inr:
  "flattenExtends self h f extendList filePath name = Some (Inr elements) \<Longrightarrow>
   \<exists>parts. list_all2 (\<lambda>extendName es. \<exists>p. loadExtends h f extendName filePath name = Inr p \<and>
                         spread self p = Some (Inr es)) extendList parts \<and>
           elements = concat parts"
proof (induction extendList arbitrary: elements)
  case Nil
  then show ?case by simp
next
  case (Cons x xs)
  from Cons.prems obtain p es others where
    p: "loadExtends h f x filePath name = Inr p" and es: "spread self p = Some (Inr es)"
    and others: "flattenExtends self h f xs filePath name = Some (Inr others)"
    and el: "elements = es @ others"
    by (auto simp: andThen_Inr split: sum.splits)
  from Cons.IH [OF others] obtain parts where
    "list_all2 (\<lambda>extendName es. \<exists>p. loadExtends h f extendName filePath name = Inr p \<and>
        spread self p = Some (Inr es)) xs parts" "others = concat parts" by blast
  moreover have "\<exists>p. loadExtends h f x filePath name = Inr p \<and> spread self p = Some (Inr es)"
    using p es by blast
  ultimately show ?case
    using el by (intro exI [of _ "es # parts"]) simp
qed

lemma flattenOverrides_Inr:
  "flattenOverrides self i overrideList filePath name = Some (Inr elements) \<Longrightarrow>
   \<exists>parts. list_all2 (\<lambda>(j, override) es.
                self override filePath (name @ ''#overrides['' @ decimal j @ '']'') = Some (Inr es))
             (zip [i..<i + length overrideList] overrideList) parts \<and>
           elements = concat parts"
proof (induction overrideList arbitrary: i elements)
  case Nil
  then show ?case by simp
next
  case (Cons x xs)
  from Cons.prems obtain es others where
    es: "self x filePath (name @ ''#overrides['' @ decimal i @ '']'') = Some (Inr es)"
    and others: "flattenOverrides self (Suc i) xs filePath name = Some (Inr others)"
    and el: "elements = es @ others"
    by (auto simp: andThen_Inr)
  from Cons.IH [OF others] obtain parts where
    "list_all2 (\<lambda>(j, override) es.
        self override filePath (name @ ''#overrides['' @ decimal j @ '']'') = Some (Inr es))
       (zip [Suc i..<Suc i + length xs] xs) parts" "others = concat parts" by blast
  moreover have "[i..<i + length (x # xs)] = i # [Suc i..<Suc i + length xs]"
    using upt_conv_Cons [of i "i + length (x # xs)"] by (simp del: upt_Suc)
  ultimately show ?case
    using es el by (intro exI [of _ "es # parts"]) simp
qed

lemma applyCriteria_criteria:
  "el_criteria (applyCriteria levelCriteria base e) =
     map_option (\<lambda>t. t\<lparr>basePath := base\<rparr>) (OverrideTester_and levelCriteria (el_criteria e))"
  by (simp add: applyCriteria_def split: option.splits)

lemma applyCriteria_root:
  "el_criteria (applyCriteria levelCriteria base e) \<noteq> None \<Longrightarrow>
   el_root (applyCriteria levelCriteria base e) = None"
  by (simp add: applyCriteria_def split: option.splits)

lemma applyCriteria_basePath:
  "el_criteria (applyCriteria levelCriteria base e) = Some t \<Longrightarrow> basePath t = base"
  by (auto simp: applyCriteria_def split: option.splits)

lemma applyCriteria_fields [simp]:
  "el_name (applyCriteria levelCriteria base e) = el_name e"
  "el_filePath (applyCriteria levelCriteria base e) = el_filePath e"
  "el_rules (applyCriteria levelCriteria base e) = el_rules e"
  by (simp_all add: applyCriteria_def split: option.splits)

lemma createFrom_Inr:
  assumes "createFrom h f depth entry parent = Some (Inr arr)"
    and "e \<in> set arr" and "e \<notin> set (parentElements parent)"
  shows "\<exists>c x filePath name elements.
           entry = Inr (Some (Obj c x, filePath, name)) \<and>
           normalizeObjectConfigData h f depth c filePath name = Some (Inr elements) \<and>
           e \<in> set elements"
proof (cases entry)
  case (Inl err)
  with assms show ?thesis by (simp add: createFrom_def)
next
  case (Inr p)
  show ?thesis
  proof (cases p)
    case None
    with Inr assms show ?thesis
      by (auto simp: createFrom_def createConfigArray_def parentElements_def split: option.splits)
  next
    case (Some q)
    obtain v filePath name where q: "q = (v, filePath, name)" by (cases q)
    with Inr Some assms obtain elements where
      run: "spread (normalizeObjectConfigData h f depth) (v, filePath, name) = Some (Inr elements)"
      and arr: "arr = createConfigArray (Some elements) parent"
      by (auto simp: createFrom_def andThen_Inr)
    from arr assms(2,3) have "e \<in> set elements"
      by (auto simp: createConfigArray_def parentElements_def split: option.splits if_splits)
    with run q Inr Some show ?thesis
      by (cases v) (auto simp: spread_def)
  qed
qed

lemma normalizeConfigData_Inr:
  "normalizeConfigData h f v filePath name = Inr (v', filePath', name') \<Longrightarrow>
   v' = v \<and> filePath' = resolveFilePath h f filePath"
  by (auto simp: normalizeConfigData_def Let_def split: option.splits)

lemma loadConfigData_Inr:
  "loadConfigData h f filePath name = Inr (v', filePath', name') \<Longrightarrow>
   filePath' = resolveFilePath h f filePath"
  by (auto simp: loadConfigData_def dest: normalizeConfigData_Inr split: sum.splits)

lemma loop_found:
  "loadConfigDataOnDirectory_loop h f names directoryPath name = Inr (Some (v, filePath, name')) \<Longrightarrow>
   \<exists>skipped filename rest.
     names = skipped @ filename # rest \<and>
     list_all (\<lambda>n. skipsCandidate h (path_join h directoryPath n)) skipped \<and>
     \<not> skipsCandidate h (path_join h directoryPath filename) \<and>
     filePath = resolveFilePath h f (path_join h directoryPath filename)"
proof (induction names)
  case Nil
  then show ?case by simp
next
  case (Cons n ns)
  show ?case
  proof (cases "skipsCandidate h (path_join h directoryPath n)")
    case True
    with Cons.prems have "loadConfigDataOnDirectory_loop h f ns directoryPath name =
        Inr (Some (v, filePath, name'))"
      by (auto simp: skipsCandidate_def Let_def softCode_def split: sum.splits js_value.splits if_splits)
    from Cons.IH [OF this] obtain skipped filename rest where
      "ns = skipped @ filename # rest"
      "list_all (\<lambda>n. skipsCandidate h (path_join h directoryPath n)) skipped"
      "\<not> skipsCandidate h (path_join h directoryPath filename)"
      "filePath = resolveFilePath h f (path_join h directoryPath filename)" by blast
    with True show ?thesis
      by (intro exI [of _ "n # skipped"] exI [of _ filename] exI [of _ rest]) simp
  next
    case False
    with Cons.prems have "filePath = resolveFilePath h f (path_join h directoryPath n)"
      by (auto simp: skipsCandidate_def Let_def softCode_def
          dest: normalizeConfigData_Inr split: sum.splits js_value.splits if_splits)
    with False show ?thesis
      by (intro exI [of _ "[]"] exI [of _ n] exI [of _ ns]) simp
  qed
qed

lemma normalizeObjectConfigData_root:
  assumes "normalizeObjectConfigData h f depth c filePath name = Some (Inr elements)"
    and "e \<in> set elements" and "el_criteria e \<noteq> None"
  shows "el_root e = None"
  using normalizeObjectConfigData_Inr [OF assms(1)] assms(2,3)
  by (auto simp: applyCriteria_root)

lemma normalizeObjectConfigData_basePath:
  assumes "normalizeObjectConfigData h f depth c filePath name = Some (Inr elements)"
    and "e \<in> set elements" and "el_criteria e = Some t"
  shows "basePath t = levelBasePath h f filePath"
  using normalizeObjectConfigData_Inr [OF assms(1)] assms(2,3)
  by (auto simp: applyCriteria_basePath)

lemma OverrideTester_and_None [simp]:
  "OverrideTester_and None t = t" "OverrideTester_and t None = t"
  by (simp_all add: OverrideTester_and_def split: option.splits)

lemma OverrideTester_and_create:
  "map_option (\<lambda>t. t\<lparr>basePath := base\<rparr>)
     (OverrideTester_and (OverrideTester_create i1 e1 base)
        (map_option (\<lambda>t. t\<lparr>basePath := base\<rparr>) (OverrideTester_create i2 e2 base))) =
   OverrideTester_and (OverrideTester_create i1 e1 base) (OverrideTester_create i2 e2 base)"
  by (simp add: OverrideTester_and_def OverrideTester_create_def)

lemma criteriaMatches_and_create:
  "criteriaMatches h
     (OverrideTester_and (OverrideTester_create i1 e1 base) (OverrideTester_create i2 e2 base))
     target \<longleftrightarrow>
   criteriaMatches h (OverrideTester_create i1 e1 base) target \<and>
   criteriaMatches h (OverrideTester_create i2 e2 base) target"
  by (auto simp: criteriaMatches_def OverrideTester_and_def OverrideTester_create_def
      OverrideTester_test_def Let_def)

lemma own_in_body:
  assumes "normalizeObjectConfigDataBody self h f c filePath name = Some (Inr body)"
  shows "\<exists>loaded. ownElement c filePath name (loadedParser h f c filePath name) loaded \<in> set body"
  using normalizeObjectConfigDataBody_Inr [OF assms] by auto

lemma overrides_in_body:
  assumes "normalizeObjectConfigDataBody self h f c filePath name = Some (Inr body)"
    and "i < length (overrides c)"
  shows "\<exists>es. self (overrides c ! i) filePath (name @ ''#overrides['' @ decimal i @ '']'') =
              Some (Inr es) \<and> set es \<subseteq> set body"
proof -
  from normalizeObjectConfigDataBody_Inr [OF assms(1)]
  obtain loaded extended processorElements overridden where
    ov: "flattenOverrides self 0 (overrides c) filePath name = Some (Inr overridden)"
    and b: "body = extended @ processorElements @
             [ownElement c filePath name (loadedParser h f c filePath name) loaded] @ overridden"
    by blast
  from b have sub: "set overridden \<subseteq> set body" by auto
  from flattenOverrides_Inr [OF ov] obtain parts where
    all: "list_all2 (\<lambda>(j, override) es.
            self override filePath (name @ ''#overrides['' @ decimal j @ '']'') = Some (Inr es))
          (zip [0..<0 + length (overrides c)] (overrides c)) parts"
    and cc: "overridden = concat parts" by blast
  from all have len: "length parts = length (overrides c)"
    by (auto dest: list_all2_lengthD)
  from list_all2_nthD [OF all, of i] assms(2)
  have "self (overrides c ! i) filePath (name @ ''#overrides['' @ decimal i @ '']'') =
      Some (Inr (parts ! i))" by simp
  moreover have "parts ! i \<in> set parts"
    using len assms(2) by simp
  then have "set (parts ! i) \<subseteq> set overridden"
    unfolding cc by auto
  ultimately show ?thesis using sub by blast
qed

subsection \<open>File paths in a plugins list\<close>

text \<open>
  Claim C10. When a \<^verbatim>\<open>plugins\<close> list contains an entry that is a file path (it starts
  with \<^verbatim>\<open>./\<close> or \<^verbatim>\<open>../\<close>, with either separator, or it is absolute), \<^verbatim>\<open>_loadPlugins\<close>
  throws the error "Plugins array cannot includes file paths." and no dependency is
  returned; a config that declares such a list throws that error as soon as its
  \<^verbatim>\<open>extends\<close> have been flattened.
\<close>

theorem plugins_file_path_is_fatal:
  assumes "list_ex (isFilePath h) names"
  shows "loadPlugins h f names importerPath importerName =
           Inl (Error ''Plugins array cannot includes file paths.'') \<and>
         (plugins c = Some names \<longrightarrow>
          flattenExtends (normalizeObjectConfigData h f depth) h f
            (filter (\<lambda>x. x \<noteq> []) (extends c)) filePath name = Some (Inr extended) \<longrightarrow>
          normalizeObjectConfigData h f (Suc depth) c filePath name =
            Some (Inl (Error ''Plugins array cannot includes file paths.'')))"
  using assms
  by (simp add: loadPlugins_def loadPlugins_reduce_file_path normalizeObjectConfigDataBody_def)

theorem plugins_file_path_is_fatal_witness:
  "loadPlugins demo_host demo_factory [''ext'', ''./path/to/plugin''] [] [] =
     Inl (Error ''Plugins array cannot includes file paths.'') \<and>
   normalizeObjectConfigData demo_host demo_factory (Suc 0)
     (demo_config [] [] [] (Some [''ext'', ''./path/to/plugin'']) None 1) [] [] =
     Some (Inl (Error ''Plugins array cannot includes file paths.''))"
proof -
  have h: "list_ex (isFilePath demo_host) [''ext'', ''./path/to/plugin'']"
    by (simp add: isFilePath_def isSeparator_def)
  show ?thesis
    using plugins_file_path_is_fatal [OF h, of demo_factory "[]" "[]"
        "demo_config [] [] [] (Some [''ext'', ''./path/to/plugin'']) None 1" 0 "[]" "[]" "[]"]
    by (simp add: demo_config_def)
qed

subsection \<open>Whitespace in plugin names\<close>




subsection \<open>How parsers and plugins are resolved\<close>




subsection \<open>Failures of parsers and plugins\<close>





subsection \<open>Built-in configs\<close>

text \<open>
  Claim C8. An \<^verbatim>\<open>extends\<close> entry that starts with \<^verbatim>\<open>eslint:\<close> loads the recommended
  config for \<^verbatim>\<open>eslint:recommended\<close>, the config of all rules for \<^verbatim>\<open>eslint:all\<close>, and for
  every other name throws the missing-config error, whose data names the entry and whose
  message ends with the importer; the config that declares such an entry first throws
  that error.
\<close>

theorem builtin_extends:
  assumes "startsWith extendName ''eslint:''"
  shows "loadExtends h f extendName importerPath importerName =
           (if extendName = ''eslint:recommended''
            then map_sum (referencedFrom importerPath importerName) id
                   (loadConfigData h f (eslintRecommendedPath h)
                      (importerName @ arrow @ extendName))
            else if extendName = ''eslint:all''
            then map_sum (referencedFrom importerPath importerName) id
                   (loadConfigData h f (eslintAllPath h) (importerName @ arrow @ extendName))
            else Inl (referencedFrom importerPath importerName
                        (configMissingError extendName))) \<and>
         (extendName \<noteq> ''eslint:recommended'' \<longrightarrow> extendName \<noteq> ''eslint:all'' \<longrightarrow>
            messageTemplate (referencedFrom importerPath importerName
              (configMissingError extendName)) = Some ''extend-config-missing'' \<and>
            messageData (referencedFrom importerPath importerName
              (configMissingError extendName)) = [(''configName'', extendName)] \<and>
            flattenExtends self h f (extendName # others) importerPath importerName =
              Some (Inl (referencedFrom importerPath importerName
                           (configMissingError extendName))) \<and>
            (extends c = extendName # others \<longrightarrow>
               normalizeObjectConfigData h f (Suc depth) c importerPath importerName =
                 Some (Inl (referencedFrom importerPath importerName
                              (configMissingError extendName)))))"
proof -
  have ne: "extendName \<noteq> []" using assms by (auto simp: startsWith_def)
  have le: "loadExtends h f extendName importerPath importerName =
           (if extendName = ''eslint:recommended''
            then map_sum (referencedFrom importerPath importerName) id
                   (loadConfigData h f (eslintRecommendedPath h)
                      (importerName @ arrow @ extendName))
            else if extendName = ''eslint:all''
            then map_sum (referencedFrom importerPath importerName) id
                   (loadConfigData h f (eslintAllPath h) (importerName @ arrow @ extendName))
            else Inl (referencedFrom importerPath importerName
                        (configMissingError extendName)))"
    using assms
    by (auto simp: loadExtends_def loadExtendedBuiltInConfig_def Let_def split: sum.splits)
  have fl: "flattenExtends self h f (extendName # others) importerPath importerName =
              Some (Inl (referencedFrom importerPath importerName
                           (configMissingError extendName)))"
    if "extendName \<noteq> ''eslint:recommended''" "extendName \<noteq> ''eslint:all''" for self
    using that le by simp
  show ?thesis
    using le fl ne
    by (simp add: referencedFrom_def configMissingError_def normalizeObjectConfigDataBody_def)
qed

theorem builtin_extends_witness:
  "loadExtends demo_host demo_factory ''eslint:foo'' [] ''.eslintrc'' =
     Inl (referencedFrom [] ''.eslintrc'' (configMissingError ''eslint:foo'')) \<and>
   normalizeObjectConfigData demo_host demo_factory (Suc 0)
     (demo_config [] [''eslint:foo''] [] None None 1) [] ''.eslintrc'' =
     Some (Inl (referencedFrom [] ''.eslintrc'' (configMissingError ''eslint:foo''))) \<and>
   message (referencedFrom [] ''.eslintrc'' (configMissingError ''eslint:foo'')) =
     ''Failed to load config \"eslint:foo\" to extend from.'' @ [CHR 0x0A] @
     ''Referenced from: .eslintrc'' \<and>
   loadExtends demo_host demo_factory ''eslint:all'' [] ''.eslintrc'' =
     Inr (Obj (demo_config [] [] [] None None 10) None, ''/eslint/conf/eslint-all.js'',
          ''.eslintrc'' @ arrow @ ''eslint:all'')"
proof -
  have a: "startsWith ''eslint:foo'' ''eslint:''" "startsWith ''eslint:all'' ''eslint:''"
    by (simp_all add: startsWith_def)
  have b: "extends (demo_config [] [''eslint:foo''] [] None None 1) = [''eslint:foo'']"
    by (simp add: demo_config_def)
  have c: "message (referencedFrom [] ''.eslintrc'' (configMissingError ''eslint:foo'')) =
     ''Failed to load config \"eslint:foo\" to extend from.'' @ [CHR 0x0A] @
     ''Referenced from: .eslintrc''"
    by (simp add: referencedFrom_def configMissingError_def)
  have d: "loadConfigData demo_host demo_factory (eslintAllPath demo_host)
      (''.eslintrc'' @ arrow @ ''eslint:all'') =
     Inr (Obj (demo_config [] [] [] None None 10) None, ''/eslint/conf/eslint-all.js'',
          ''.eslintrc'' @ arrow @ ''eslint:all'')"
    by code_simp
  show ?thesis
    using builtin_extends [OF a(1), where h = demo_host and f = demo_factory
        and importerPath = "[]" and importerName = "''.eslintrc''" and others = "[]"
        and c = "demo_config [] [''eslint:foo''] [] None None 1" and depth = 0]
      builtin_extends [OF a(2), where h = demo_host and f = demo_factory
        and importerPath = "[]" and importerName = "''.eslintrc''"]
      b c d
    by simp
qed

subsection \<open>Searching a directory\<close>



subsection \<open>The order of the fragments\<close>

text \<open>
  Claim C1. The fragments that a config yields are, in this order: for each non-empty
  \<^verbatim>\<open>extends\<close> entry in declared order, the fragments of the config it names; the
  pseudo-fragments of the file-extension processors of the declared plugins, when there
  are any; the fragment of the config itself; and, for each \<^verbatim>\<open>overrides\<close> entry in
  declared order, the fragments of that entry. The criteria of the level are applied to
  each of them, in place. So the results of \<^verbatim>\<open>extends\<close> precede the declaring fragment and
  the results of \<^verbatim>\<open>overrides\<close> follow it.
\<close>

theorem flattening_order:
  assumes "normalizeObjectConfigData h f (Suc depth) c filePath name = Some (Inr elements)"
  shows "\<exists>loaded extended processorElements overridden.
           list_all2 (\<lambda>extendName es.
               \<exists>p. loadExtends h f extendName filePath name = Inr p \<and>
                   spread (normalizeObjectConfigData h f depth) p = Some (Inr es))
             (filter (\<lambda>x. x \<noteq> []) (extends c)) extended \<and>
           map_option (\<lambda>names. loadPlugins h f names filePath name) (plugins c) =
             map_option Inr loaded \<and>
           (case loaded of
              None \<Rightarrow> Some (Inr [])
            | Some m \<Rightarrow>
                takeFileExtensionProcessors (normalizeObjectConfigData h f depth) m filePath name) =
             Some (Inr processorElements) \<and>
           list_all2 (\<lambda>(i, override) es.
               normalizeObjectConfigData h f depth override filePath
                 (name @ ''#overrides['' @ decimal i @ '']'') = Some (Inr es))
             (zip [0..<length (overrides c)] (overrides c)) overridden \<and>
           elements =
             map (applyCriteria
                    (OverrideTester_create (files c) (excludedFiles c) (levelBasePath h f filePath))
                    (levelBasePath h f filePath))
               (concat extended @ processorElements @
                [ownElement c filePath name (loadedParser h f c filePath name) loaded] @
                concat overridden)"
proof -
  from normalizeObjectConfigData_Inr [OF assms] obtain body where
    body: "normalizeObjectConfigDataBody (normalizeObjectConfigData h f depth) h f c filePath name =
      Some (Inr body)"
    and els: "elements =
             map (applyCriteria
                    (OverrideTester_create (files c) (excludedFiles c) (levelBasePath h f filePath))
                    (levelBasePath h f filePath)) body"
    by auto
  from normalizeObjectConfigDataBody_Inr [OF body]
  obtain loaded extended processorElements overridden where
    ex: "flattenExtends (normalizeObjectConfigData h f depth) h f
           (filter (\<lambda>x. x \<noteq> []) (extends c)) filePath name = Some (Inr extended)"
    and pl: "map_option (\<lambda>names. loadPlugins h f names filePath name) (plugins c) =
             map_option Inr loaded"
    and pr: "(case loaded of
              None \<Rightarrow> Some (Inr [])
            | Some m \<Rightarrow>
                takeFileExtensionProcessors (normalizeObjectConfigData h f depth) m filePath name) =
             Some (Inr processorElements)"
    and ov: "flattenOverrides (normalizeObjectConfigData h f depth) 0 (overrides c) filePath name =
             Some (Inr overridden)"
    and b: "body = extended @ processorElements @
             [ownElement c filePath name (loadedParser h f c filePath name) loaded] @ overridden"
    by blast
  from flattenExtends_Inr [OF ex] obtain eparts where
    ep: "list_all2 (\<lambda>extendName es.
               \<exists>p. loadExtends h f extendName filePath name = Inr p \<and>
                   spread (normalizeObjectConfigData h f depth) p = Some (Inr es))
             (filter (\<lambda>x. x \<noteq> []) (extends c)) eparts"
    and ec: "extended = concat eparts" by blast
  from flattenOverrides_Inr [OF ov] obtain oparts where
    op: "list_all2 (\<lambda>(i, override) es.
               normalizeObjectConfigData h f depth override filePath
                 (name @ ''#overrides['' @ decimal i @ '']'') = Some (Inr es))
             (zip [0..<length (overrides c)] (overrides c)) oparts"
    and oc: "overridden = concat oparts" by auto
  show ?thesis
    apply (rule exI [of _ loaded])
    apply (rule exI [of _ eparts])
    apply (rule exI [of _ processorElements])
    apply (rule exI [of _ oparts])
    using ep pl pr op els b ec oc by simp
qed

theorem flattening_order_witness:
  "\<exists>elements loaded extended processorElements overridden.
     normalizeObjectConfigData demo_host demo_factory (Suc 3) demo_app_config
       ''/proj/app/.eslintrc.json'' ''app'' = Some (Inr elements) \<and>
     length extended = 2 \<and> length overridden = 2 \<and>
     elements =
       map (applyCriteria None ''/proj/app'')
         (concat extended @ processorElements @
          [ownElement demo_app_config ''/proj/app/.eslintrc.json'' ''app'' None loaded] @
          concat overridden) \<and>
     map el_filePath elements =
       [''/proj/node_modules/eslint-config-base/index.js'',
        ''/proj/node_modules/eslint-config-base/index.js'',
        ''/eslint/conf/eslint-recommended.js'',
        ''/proj/app/.eslintrc.json'',
        ''/proj/app/.eslintrc.json'',
        ''/proj/node_modules/eslint-config-root/index.js'',
        ''/proj/app/.eslintrc.json'',
        ''/proj/app/.eslintrc.json'',
        ''/proj/app/.eslintrc.json'']"
proof -
  have "case normalizeObjectConfigData demo_host demo_factory (Suc 3) demo_app_config
       ''/proj/app/.eslintrc.json'' ''app'' of
       Some (Inr elements) \<Rightarrow> map el_filePath elements =
       [''/proj/node_modules/eslint-config-base/index.js'',
        ''/proj/node_modules/eslint-config-base/index.js'',
        ''/eslint/conf/eslint-recommended.js'',
        ''/proj/app/.eslintrc.json'',
        ''/proj/app/.eslintrc.json'',
        ''/proj/node_modules/eslint-config-root/index.js'',
        ''/proj/app/.eslintrc.json'',
        ''/proj/app/.eslintrc.json'',
        ''/proj/app/.eslintrc.json'']
     | _ \<Rightarrow> False"
    by code_simp
  then obtain elements where
    run: "normalizeObjectConfigData demo_host demo_factory (Suc 3) demo_app_config
       ''/proj/app/.eslintrc.json'' ''app'' = Some (Inr elements)"
    and paths: "map el_filePath elements =
       [''/proj/node_modules/eslint-config-base/index.js'',
        ''/proj/node_modules/eslint-config-base/index.js'',
        ''/eslint/conf/eslint-recommended.js'',
        ''/proj/app/.eslintrc.json'',
        ''/proj/app/.eslintrc.json'',
        ''/proj/node_modules/eslint-config-root/index.js'',
        ''/proj/app/.eslintrc.json'',
        ''/proj/app/.eslintrc.json'',
        ''/proj/app/.eslintrc.json'']"
    by (auto split: option.splits sum.splits)
  have facts: "filter (\<lambda>x. x \<noteq> []) (extends demo_app_config) = [''base'', ''eslint:recommended'']"
    "length (overrides demo_app_config) = 2"
    "OverrideTester_create (files demo_app_config) (excludedFiles demo_app_config)
       (levelBasePath demo_host demo_factory ''/proj/app/.eslintrc.json'') = None"
    "levelBasePath demo_host demo_factory ''/proj/app/.eslintrc.json'' = ''/proj/app''"
    "OverrideTester_create (files demo_app_config) (excludedFiles demo_app_config)
       ''/proj/app'' = None"
    "loadedParser demo_host demo_factory demo_app_config ''/proj/app/.eslintrc.json'' ''app'' = None"
    by code_simp+
  from flattening_order [OF run] obtain loaded extended processorElements overridden where
    ex: "list_all2 (\<lambda>extendName es.
               \<exists>p. loadExtends demo_host demo_factory extendName ''/proj/app/.eslintrc.json'' ''app'' = Inr p \<and>
                   spread (normalizeObjectConfigData demo_host demo_factory 3) p = Some (Inr es))
             (filter (\<lambda>x. x \<noteq> []) (extends demo_app_config)) extended"
    and ov: "list_all2 (\<lambda>(i, override) es.
               normalizeObjectConfigData demo_host demo_factory 3 override ''/proj/app/.eslintrc.json''
                 (''app'' @ ''#overrides['' @ decimal i @ '']'') = Some (Inr es))
             (zip [0..<length (overrides demo_app_config)] (overrides demo_app_config)) overridden"
    and el: "elements =
             map (applyCriteria
                    (OverrideTester_create (files demo_app_config) (excludedFiles demo_app_config)
                       (levelBasePath demo_host demo_factory ''/proj/app/.eslintrc.json''))
                    (levelBasePath demo_host demo_factory ''/proj/app/.eslintrc.json''))
               (concat extended @ processorElements @
                [ownElement demo_app_config ''/proj/app/.eslintrc.json'' ''app''
                   (loadedParser demo_host demo_factory demo_app_config
                      ''/proj/app/.eslintrc.json'' ''app'') loaded] @
                concat overridden)"
    by blast
  from list_all2_lengthD [OF ex] have l1: "length extended = 2" by (simp add: facts)
  from list_all2_lengthD [OF ov] have l2: "length overridden = 2" by (simp add: facts)
  from el have el': "elements =
       map (applyCriteria None ''/proj/app'')
         (concat extended @ processorElements @
          [ownElement demo_app_config ''/proj/app/.eslintrc.json'' ''app'' None loaded] @
          concat overridden)"
    by (simp only: facts)
  show ?thesis
    apply (rule exI [of _ elements])
    apply (rule exI [of _ loaded])
    apply (rule exI [of _ extended])
    apply (rule exI [of _ processorElements])
    apply (rule exI [of _ overridden])
    apply (intro conjI)
        apply (rule run)
       apply (rule l1)
      apply (rule l2)
     apply (rule el')
    apply (rule paths)
    done
qed

subsection \<open>Scoped fragments are never roots\<close>

text \<open>
  Claim C2. In the array that \<^verbatim>\<open>create\<close>, \<^verbatim>\<open>loadFile\<close> or \<^verbatim>\<open>loadOnDirectory\<close> returns, every
  fragment produced by the call (not taken over from the parent array) whose criteria is
  not \<^verbatim>\<open>null\<close> has \<^verbatim>\<open>root\<close> undefined, whatever its source declared.
\<close>

theorem scoped_fragments_have_no_root:
  assumes "create h f depth v filePath name parent = Some (Inr arr) \<or>
           loadFile h f depth filePath name parent = Some (Inr arr) \<or>
           loadOnDirectory h f depth filePath name parent = Some (Inr arr)"
    and "e \<in> set arr" and "e \<notin> set (parentElements parent)" and "el_criteria e \<noteq> None"
  shows "el_root e = None"
proof -
  from assms(1) obtain entry where "createFrom h f depth entry parent = Some (Inr arr)"
    by (auto simp: create_def loadFile_def loadOnDirectory_def Let_def)
  from createFrom_Inr [OF this assms(2,3)] obtain c filePath' name' elements where
    "normalizeObjectConfigData h f depth c filePath' name' = Some (Inr elements)"
    "e \<in> set elements" by blast
  then show ?thesis using assms(4) by (rule normalizeObjectConfigData_root)
qed

theorem scoped_fragments_have_no_root_witness:
  "\<exists>arr. loadFile demo_host demo_factory 4 ''app/.eslintrc.json'' [] None = Some (Inr arr) \<and>
         length arr = 9 \<and>
         el_filePath (arr ! 5) = ''/proj/node_modules/eslint-config-root/index.js'' \<and>
         el_criteria (arr ! 5) \<noteq> None \<and> el_root (arr ! 5) = None \<and>
         el_root (arr ! 4) = Some True"
proof -
  have "case loadFile demo_host demo_factory 4 ''app/.eslintrc.json'' [] None of
          Some (Inr arr) \<Rightarrow>
            length arr = 9 \<and>
            el_filePath (arr ! 5) = ''/proj/node_modules/eslint-config-root/index.js'' \<and>
            el_criteria (arr ! 5) \<noteq> None \<and> el_root (arr ! 4) = Some True
        | _ \<Rightarrow> False"
    by code_simp
  then obtain arr where
    run: "loadFile demo_host demo_factory 4 ''app/.eslintrc.json'' [] None = Some (Inr arr)"
    and len: "length arr = 9"
    and path: "el_filePath (arr ! 5) = ''/proj/node_modules/eslint-config-root/index.js''"
    and crit: "el_criteria (arr ! 5) \<noteq> None" and own: "el_root (arr ! 4) = Some True"
    by (auto split: option.splits sum.splits)
  have mem: "arr ! 5 \<in> set arr" using len by simp
  have np: "arr ! 5 \<notin> set (parentElements None)" by (simp add: parentElements_def)
  from scoped_fragments_have_no_root [OF disjI2 [OF disjI1 [OF run]] mem np crit]
  have "el_root (arr ! 5) = None" .
  with run len path crit own show ?thesis by blast
qed

subsection \<open>Composed criteria\<close>

text \<open>
  Claim C3. Let a config level have criteria \<open>X\<close> and its \<open>i\<close>-th \<^verbatim>\<open>overrides\<close> entry
  criteria \<open>Y\<close>, either of which may be \<^verbatim>\<open>null\<close>. The level yields the fragment of that
  entry with the criteria \<open>and X Y\<close>. A \<^verbatim>\<open>null\<close> operand of \<open>and\<close> is the identity, a path
  matches \<open>and X Y\<close> exactly when it matches \<open>X\<close> and \<open>Y\<close>, and it matches \<open>and X Y\<close>
  exactly when it matches \<open>and Y X\<close>.
\<close>

theorem nested_override_criteria:
  assumes "normalizeObjectConfigData h f depth c filePath name = Some (Inr elements)"
    and "i < length (overrides c)"
    and "X = OverrideTester_create (files c) (excludedFiles c) (levelBasePath h f filePath)"
    and "Y = OverrideTester_create (files (overrides c ! i)) (excludedFiles (overrides c ! i))
               (levelBasePath h f filePath)"
  shows "(\<exists>e \<in> set elements.
            el_name e = name @ ''#overrides['' @ decimal i @ '']'' \<and>
            el_filePath e = filePath \<and>
            el_rules e = rules (overrides c ! i) \<and>
            el_criteria e = OverrideTester_and X Y) \<and>
         OverrideTester_and None Y = Y \<and> OverrideTester_and X None = X \<and>
         (criteriaMatches h (OverrideTester_and X Y) target \<longleftrightarrow>
            criteriaMatches h X target \<and> criteriaMatches h Y target) \<and>
         (criteriaMatches h (OverrideTester_and X Y) target \<longleftrightarrow>
            criteriaMatches h (OverrideTester_and Y X) target)"
proof -
  let ?base = "levelBasePath h f filePath"
  let ?o = "overrides c ! i"
  let ?name = "name @ ''#overrides['' @ decimal i @ '']''"
  from normalizeObjectConfigData_Inr [OF assms(1)] obtain d body where
    d: "depth = Suc d"
    and body: "normalizeObjectConfigDataBody (normalizeObjectConfigData h f d) h f c filePath name =
      Some (Inr body)"
    and els: "elements = map (applyCriteria X ?base) body"
    using assms(3) by blast
  from overrides_in_body [OF body assms(2)] obtain es where
    es: "normalizeObjectConfigData h f d ?o filePath ?name = Some (Inr es)"
    and sub: "set es \<subseteq> set body" by blast
  from normalizeObjectConfigData_Inr [OF es] obtain d' body' where
    body': "normalizeObjectConfigDataBody (normalizeObjectConfigData h f d') h f ?o filePath ?name =
      Some (Inr body')"
    and es': "es = map (applyCriteria Y ?base) body'"
    using assms(4) by blast
  from own_in_body [OF body'] obtain loaded where
    own: "ownElement ?o filePath ?name (loadedParser h f ?o filePath ?name) loaded \<in> set body'"
    by blast
  let ?own = "ownElement ?o filePath ?name (loadedParser h f ?o filePath ?name) loaded"
  let ?e = "applyCriteria X ?base (applyCriteria Y ?base ?own)"
  have "?e \<in> set elements" using own es' sub els by auto
  moreover have "el_criteria ?e = OverrideTester_and X Y"
    using OverrideTester_and_create [of ?base "files c" "excludedFiles c" "files ?o" "excludedFiles ?o"]
    by (simp add: applyCriteria_criteria ownElement_def assms(3,4))
  moreover have "el_name ?e = ?name" "el_filePath ?e = filePath" "el_rules ?e = rules ?o"
    by (simp_all add: ownElement_def)
  ultimately have 1: "\<exists>e \<in> set elements.
            el_name e = ?name \<and> el_filePath e = filePath \<and> el_rules e = rules ?o \<and>
            el_criteria e = OverrideTester_and X Y" by blast
  have 2: "criteriaMatches h (OverrideTester_and X Y) target \<longleftrightarrow>
            criteriaMatches h X target \<and> criteriaMatches h Y target"
    unfolding assms(3,4) by (rule criteriaMatches_and_create)
  have 3: "criteriaMatches h (OverrideTester_and Y X) target \<longleftrightarrow>
            criteriaMatches h Y target \<and> criteriaMatches h X target"
    unfolding assms(3,4) by (rule criteriaMatches_and_create)
  from 1 2 3 show ?thesis by auto
qed

theorem nested_override_criteria_witness:
  "\<exists>elements.
     normalizeObjectConfigData demo_host demo_factory 3 demo_scoped_config
       ''/proj/app/.eslintrc.json'' ''app'' = Some (Inr elements) \<and>
     (\<exists>e \<in> set elements.
        el_name e = ''app#overrides[0]'' \<and>
        el_criteria e =
          Some \<lparr>patterns = [([''*.xxx''], []), ([''*.min.xxx''], [])], basePath = ''/proj/app''\<rparr>) \<and>
     criteriaMatches demo_host
       (Some \<lparr>patterns = [([''*.xxx''], []), ([''*.min.xxx''], [])], basePath = ''/proj/app''\<rparr>)
       ''/proj/app/a.min.xxx'' \<and>
     \<not> criteriaMatches demo_host
       (Some \<lparr>patterns = [([''*.xxx''], []), ([''*.min.xxx''], [])], basePath = ''/proj/app''\<rparr>)
       ''/proj/app/a.xxx''"
proof -
  let ?X = "OverrideTester_create [''*.xxx''] [] ''/proj/app''"
  let ?Y = "OverrideTester_create [''*.min.xxx''] [] ''/proj/app''"
  let ?XY = "Some \<lparr>patterns = [([''*.xxx''], []), ([''*.min.xxx''], [])], basePath = ''/proj/app''\<rparr>"
  have "case normalizeObjectConfigData demo_host demo_factory 3 demo_scoped_config
       ''/proj/app/.eslintrc.json'' ''app'' of Some (Inr elements) \<Rightarrow> True | _ \<Rightarrow> False"
    by code_simp
  then obtain elements where
    run: "normalizeObjectConfigData demo_host demo_factory 3 demo_scoped_config
       ''/proj/app/.eslintrc.json'' ''app'' = Some (Inr elements)"
    by (auto split: option.splits sum.splits)
  have i: "0 < length (overrides demo_scoped_config)"
    by (simp add: demo_scoped_config_def demo_config_def)
  have X: "?X = OverrideTester_create (files demo_scoped_config) (excludedFiles demo_scoped_config)
      (levelBasePath demo_host demo_factory ''/proj/app/.eslintrc.json'')"
    by code_simp
  have Y: "?Y = OverrideTester_create (files (overrides demo_scoped_config ! 0))
      (excludedFiles (overrides demo_scoped_config ! 0))
      (levelBasePath demo_host demo_factory ''/proj/app/.eslintrc.json'')"
    by code_simp
  have XY: "OverrideTester_and ?X ?Y = ?XY" by code_simp
  have n: "''app'' @ ''#overrides['' @ decimal 0 @ '']'' = ''app#overrides[0]''" by code_simp
  have m: "criteriaMatches demo_host ?X ''/proj/app/a.min.xxx''"
    "criteriaMatches demo_host ?Y ''/proj/app/a.min.xxx''"
    "criteriaMatches demo_host ?X ''/proj/app/a.xxx''"
    "\<not> criteriaMatches demo_host ?Y ''/proj/app/a.xxx''"
    by code_simp+
  note T = nested_override_criteria [OF run i X Y, unfolded XY n]
  from T [of "''/proj/app/a.min.xxx''"] m
  have 1: "\<exists>e \<in> set elements.
        el_name e = ''app#overrides[0]'' \<and> el_criteria e = ?XY"
    and 2: "criteriaMatches demo_host ?XY ''/proj/app/a.min.xxx''"
    by auto
  from T [of "''/proj/app/a.xxx''"] m
  have 3: "\<not> criteriaMatches demo_host ?XY ''/proj/app/a.xxx''" by auto
  from run 1 2 3 show ?thesis by blast
qed

subsection \<open>The base path of criteria\<close>

text \<open>
  Claim C4. In the array that a call returns, the criteria of every fragment produced
  by the call has as base path the base path of the entry config: the directory of the
  file path given to \<^verbatim>\<open>create\<close> (the working directory when none is given), of the file
  given to \<^verbatim>\<open>loadFile\<close>, or of the config file that \<^verbatim>\<open>loadOnDirectory\<close> found, and never the
  directory of a config reached through \<^verbatim>\<open>extends\<close>.
\<close>

theorem criteria_base_path_is_entry_directory:
  assumes "e \<in> set arr" and "e \<notin> set (parentElements parent)" and "el_criteria e = Some t"
  shows "(create h f depth v filePath name parent = Some (Inr arr) \<longrightarrow>
            basePath t = levelBasePath h f (resolveFilePath h f filePath)) \<and>
         (loadFile h f depth filePath name parent = Some (Inr arr) \<longrightarrow>
            basePath t =
              levelBasePath h f (resolveFilePath h f (path_resolve h (cwd f) filePath))) \<and>
         (loadOnDirectory h f depth filePath name parent = Some (Inr arr) \<longrightarrow>
            (\<exists>skipped filename rest.
               configFilenames = skipped @ filename # rest \<and>
               list_all (\<lambda>n. skipsCandidate h
                  (path_join h (path_resolve h (cwd f) filePath) n)) skipped \<and>
               \<not> skipsCandidate h (path_join h (path_resolve h (cwd f) filePath) filename) \<and>
               basePath t =
                 levelBasePath h f (resolveFilePath h f
                   (path_join h (path_resolve h (cwd f) filePath) filename))))"
proof (intro conjI impI)
  assume "create h f depth v filePath name parent = Some (Inr arr)"
  then have "createFrom h f depth
      (case v of Falsy \<Rightarrow> Inr None
       | Obj c x \<Rightarrow> map_sum id Some (normalizeConfigData h f v filePath name)) parent =
      Some (Inr arr)"
    by (simp add: create_def)
  from createFrom_Inr [OF this assms(1,2)] obtain c x filePath' name' elements where
    entry: "(case v of Falsy \<Rightarrow> Inr None
       | Obj c x \<Rightarrow> map_sum id Some (normalizeConfigData h f v filePath name)) =
       Inr (Some (Obj c x, filePath', name'))"
    and run: "normalizeObjectConfigData h f depth c filePath' name' = Some (Inr elements)"
    and e: "e \<in> set elements" by blast
  from entry have "filePath' = resolveFilePath h f filePath"
    by (cases v; cases "normalizeConfigData h f v filePath name")
       (auto dest: normalizeConfigData_Inr)
  with normalizeObjectConfigData_basePath [OF run e assms(3)]
  show "basePath t = levelBasePath h f (resolveFilePath h f filePath)" by simp
next
  assume "loadFile h f depth filePath name parent = Some (Inr arr)"
  then have "createFrom h f depth
      (map_sum id Some (loadConfigData h f (path_resolve h (cwd f) filePath) name)) parent =
      Some (Inr arr)"
    by (simp add: loadFile_def)
  from createFrom_Inr [OF this assms(1,2)] obtain c x filePath' name' elements where
    entry: "map_sum id Some (loadConfigData h f (path_resolve h (cwd f) filePath) name) =
       Inr (Some (Obj c x, filePath', name'))"
    and run: "normalizeObjectConfigData h f depth c filePath' name' = Some (Inr elements)"
    and e: "e \<in> set elements" by blast
  from entry have "filePath' = resolveFilePath h f (path_resolve h (cwd f) filePath)"
    by (cases "loadConfigData h f (path_resolve h (cwd f) filePath) name")
       (auto dest: loadConfigData_Inr)
  with normalizeObjectConfigData_basePath [OF run e assms(3)]
  show "basePath t = levelBasePath h f (resolveFilePath h f (path_resolve h (cwd f) filePath))"
    by simp
next
  assume "loadOnDirectory h f depth filePath name parent = Some (Inr arr)"
  then have "createFrom h f depth
      (loadConfigDataOnDirectory h f (path_resolve h (cwd f) filePath) name) parent =
      Some (Inr arr)"
    by (simp add: loadOnDirectory_def)
  from createFrom_Inr [OF this assms(1,2)] obtain c x filePath' name' elements where
    entry: "loadConfigDataOnDirectory h f (path_resolve h (cwd f) filePath) name =
       Inr (Some (Obj c x, filePath', name'))"
    and run: "normalizeObjectConfigData h f depth c filePath' name' = Some (Inr elements)"
    and e: "e \<in> set elements" by blast
  from loop_found [OF entry [unfolded loadConfigDataOnDirectory_def]]
    normalizeObjectConfigData_basePath [OF run e assms(3)]
  show "\<exists>skipped filename rest.
               configFilenames = skipped @ filename # rest \<and>
               list_all (\<lambda>n. skipsCandidate h
                  (path_join h (path_resolve h (cwd f) filePath) n)) skipped \<and>
               \<not> skipsCandidate h (path_join h (path_resolve h (cwd f) filePath) filename) \<and>
               basePath t =
                 levelBasePath h f (resolveFilePath h f
                   (path_join h (path_resolve h (cwd f) filePath) filename))"
    by auto
qed

theorem criteria_base_path_is_entry_directory_witness:
  "\<exists>arr t. loadFile demo_host demo_factory 4 ''app/.eslintrc.json'' [] None = Some (Inr arr) \<and>
           el_filePath (arr ! 1) = ''/proj/node_modules/eslint-config-base/index.js'' \<and>
           el_criteria (arr ! 1) = Some t \<and> basePath t = ''/proj/app''"
proof -
  have "case loadFile demo_host demo_factory 4 ''app/.eslintrc.json'' [] None of
          Some (Inr arr) \<Rightarrow>
            length arr = 9 \<and>
            el_filePath (arr ! 1) = ''/proj/node_modules/eslint-config-base/index.js'' \<and>
            el_criteria (arr ! 1) \<noteq> None
        | _ \<Rightarrow> False"
    by code_simp
  then obtain arr t where
    run: "loadFile demo_host demo_factory 4 ''app/.eslintrc.json'' [] None = Some (Inr arr)"
    and len: "length arr = 9"
    and path: "el_filePath (arr ! 1) = ''/proj/node_modules/eslint-config-base/index.js''"
    and crit: "el_criteria (arr ! 1) = Some t"
    by (auto split: option.splits sum.splits)
  have mem: "arr ! 1 \<in> set arr" using len by simp
  have np: "arr ! 1 \<notin> set (parentElements None)" by (simp add: parentElements_def)
  have base: "levelBasePath demo_host demo_factory
      (resolveFilePath demo_host demo_factory
         (path_resolve demo_host (cwd demo_factory) ''app/.eslintrc.json'')) = ''/proj/app''"
    by code_simp
  from criteria_base_path_is_entry_directory [OF mem np crit, of demo_host demo_factory 4
      Falsy "''app/.eslintrc.json''" "[]"] run base
  have "basePath t = ''/proj/app''" by simp
  with run path crit show ?thesis by blast
qed

end
